theory Spec2Isabelle
  imports Main "HOL-Library.Word" "HOL-Library.Option_ord"
begin

unbundle bit_operations_syntax

section \<open>The Button enumeration (MessageBox.h)\<close>

text \<open>
  \<^verbatim>\<open>enum Button : uint32_t\<close> and \<^verbatim>\<open>typedef uint32_t Buttons\<close>: a button is a
  bit flag, a requested set of buttons is the bitwise OR of flags.
\<close>

type_synonym Button = "32 word"
type_synonym Buttons = "32 word"

definition NoButton :: Button where "NoButton = 0"
definition Ok :: Button where "Ok = push_bit 1 1"
definition Open :: Button where "Open = push_bit 2 1"
definition Save :: Button where "Save = push_bit 3 1"
definition Cancel :: Button where "Cancel = push_bit 4 1"
definition Close :: Button where "Close = push_bit 5 1"
definition Discard :: Button where "Discard = push_bit 6 1"
definition Apply :: Button where "Apply = push_bit 7 1"
definition Reset :: Button where "Reset = push_bit 8 1"
definition RestoreDefaults :: Button where "RestoreDefaults = push_bit 9 1"
definition Help :: Button where "Help = push_bit 10 1"
definition SaveAll :: Button where "SaveAll = push_bit 11 1"
definition Yes :: Button where "Yes = push_bit 12 1"
definition YesToAll :: Button where "YesToAll = push_bit 13 1"
definition No :: Button where "No = push_bit 14 1"
definition NoToAll :: Button where "NoToAll = push_bit 15 1"
definition Abort :: Button where "Abort = push_bit 16 1"
definition Retry :: Button where "Retry = push_bit 17 1"
definition Ignore :: Button where "Ignore = push_bit 18 1"
definition Overwrite :: Button where "Overwrite = push_bit 19 1"
definition Delete :: Button where "Delete = push_bit 20 1"

text \<open>Internal loop markers of the header: \<^verbatim>\<open>First = Ok, Last = Delete\<close>.\<close>

definition First :: Button where "First = Ok"
definition Last :: Button where "Last = Delete"

section \<open>The dialog widget as far as MessageBox uses it\<close>

datatype ButtonRole =
  AcceptRole | RejectRole | DestructiveRole | ApplyRole | ResetRole | HelpRole | YesRole | NoRole

datatype Icon = NoIcon | Information | Warning | Critical | Question

text \<open>
  A \<^verbatim>\<open>QAbstractButton*\<close> returned by \<^verbatim>\<open>QMessageBox::addButton(text, role)\<close> is
  modelled by the position of the button among the buttons of its box; \<^verbatim>\<open>nullptr\<close>
  is \<open>None\<close>.
\<close>

type_synonym handle = nat

record QMessageBox =
  box_parent :: "nat option"
  box_icon :: Icon
  box_title :: string
  box_text :: string
  box_buttons :: "(string \<times> ButtonRole) list"
  box_default :: "handle option"

definition QMessageBox_new :: "nat option \<Rightarrow> QMessageBox" where
  "QMessageBox_new parent =
     \<lparr>box_parent = parent, box_icon = NoIcon, box_title = [], box_text = [],
      box_buttons = [], box_default = None\<rparr>"

definition box_addButton :: "string \<Rightarrow> ButtonRole \<Rightarrow> QMessageBox \<Rightarrow> handle \<times> QMessageBox" where
  "box_addButton label role box =
     (length (box_buttons box), box\<lparr>box_buttons := box_buttons box @ [(label, role)]\<rparr>)"

text \<open>
  \<^verbatim>\<open>QMessageBox::setDefaultButton(QPushButton*)\<close> ignores a button that does not
  belong to the box.
\<close>

definition box_setDefaultButton :: "handle option \<Rightarrow> QMessageBox \<Rightarrow> QMessageBox" where
  "box_setDefaultButton p box =
     (case p of
        None \<Rightarrow> box
      | Some h \<Rightarrow> if h < length (box_buttons box) then box\<lparr>box_default := Some h\<rparr> else box)"

text \<open>
  \<^verbatim>\<open>QMap<QAbstractButton*, Button>\<close> as an association list with unique keys in
  ascending order. \<^verbatim>\<open>insert\<close> replaces the value of a key already present,
  \<^verbatim>\<open>keys(value)\<close> lists in ascending order the keys that map to the value,
  \<^verbatim>\<open>operator[]\<close> yields a default-constructed value (\<open>0\<close>) for a key that is
  absent.
\<close>

type_synonym ButtonMap = "(handle option \<times> Button) list"

fun QMap_insert :: "handle option \<Rightarrow> Button \<Rightarrow> ButtonMap \<Rightarrow> ButtonMap" where
  "QMap_insert k v [] = [(k, v)]"
| "QMap_insert k v ((k', v') # m) =
     (if k' = k then (k, v) # m
      else if k < k' then (k, v) # (k', v') # m
      else (k', v') # QMap_insert k v m)"

definition QMap_keys :: "ButtonMap \<Rightarrow> Button \<Rightarrow> handle option list" where
  "QMap_keys m v = map fst (filter (\<lambda>kv. snd kv = v) m)"

definition QMap_index :: "ButtonMap \<Rightarrow> handle option \<Rightarrow> Button" where
  "QMap_index m k = (case map_of m k of Some v \<Rightarrow> v | None \<Rightarrow> 0)"

section \<open>MessageBox with two override slots (the revision declaring newQuestion)\<close>

text \<open>
  This revision of MessageBox.cpp keeps the Qt-typed entry points \<^verbatim>\<open>critical\<close>,
  \<^verbatim>\<open>information\<close>, \<^verbatim>\<open>question\<close>, \<^verbatim>\<open>warning\<close> and \<^verbatim>\<open>setNextAnswer\<close>, which work
  on \<^verbatim>\<open>QMessageBox::StandardButton\<close> (an \<^verbatim>\<open>int\<close>-based enumeration of Qt), next to
  \<^verbatim>\<open>newQuestion\<close> and \<^verbatim>\<open>setNewNextAnswer\<close>, which work on \<^verbatim>\<open>MessageBox::Button\<close>.
  The functions that exist in both revisions carry the suffix \<open>_std\<close> here.
\<close>

type_synonym StandardButton = int

definition QMessageBox_NoButton :: StandardButton where "QMessageBox_NoButton = 0"

text \<open>
  What the operator has been shown: a standard dialog of one of Qt's static functions
  (icon, parent, title, text, standard buttons, default button) or a box that the
  component filled itself.
\<close>

datatype Shown =
  Standard Icon "nat option" string string int StandardButton
| Custom QMessageBox

text \<open>
  The static members \<^verbatim>\<open>m_nextAnswer\<close>, \<^verbatim>\<open>m_newNextAnswer\<close> and \<^verbatim>\<open>m_buttonMap\<close>,
  and the dialogs executed so far.
\<close>

record MessageBox_nq =
  m_nextAnswer_std :: StandardButton
  m_newNextAnswer :: Button
  m_buttonMap_nq :: ButtonMap
  dialogs_nq :: "Shown list"

definition MessageBox_nq_init :: MessageBox_nq where
  "MessageBox_nq_init =
     \<lparr>m_nextAnswer_std = QMessageBox_NoButton, m_newNextAnswer = NoButton,
      m_buttonMap_nq = [], dialogs_nq = []\<rparr>"

text \<open>
  The Qt-typed entry points. \<open>answer\<close> is the button with which the operator closes
  the standard dialog, the value of \<^verbatim>\<open>QMessageBox::critical(...)\<close> and its siblings.
\<close>

definition critical_std ::
  "StandardButton \<Rightarrow> nat option \<Rightarrow> string \<Rightarrow> string \<Rightarrow> int \<Rightarrow> StandardButton \<Rightarrow>
   MessageBox_nq \<Rightarrow> StandardButton \<times> MessageBox_nq" where
  "critical_std answer parent title txt buttons defaultButton s =
     (if m_nextAnswer_std s = QMessageBox_NoButton then
        (answer, s\<lparr>dialogs_nq := dialogs_nq s @ [Standard Critical parent title txt buttons defaultButton]\<rparr>)
      else
        (let returnButton = m_nextAnswer_std s
         in (returnButton, s\<lparr>m_nextAnswer_std := QMessageBox_NoButton\<rparr>)))"

definition information_std ::
  "StandardButton \<Rightarrow> nat option \<Rightarrow> string \<Rightarrow> string \<Rightarrow> int \<Rightarrow> StandardButton \<Rightarrow>
   MessageBox_nq \<Rightarrow> StandardButton \<times> MessageBox_nq" where
  "information_std answer parent title txt buttons defaultButton s =
     (if m_nextAnswer_std s = QMessageBox_NoButton then
        (answer, s\<lparr>dialogs_nq := dialogs_nq s @ [Standard Information parent title txt buttons defaultButton]\<rparr>)
      else
        (let returnButton = m_nextAnswer_std s
         in (returnButton, s\<lparr>m_nextAnswer_std := QMessageBox_NoButton\<rparr>)))"

definition question_std ::
  "StandardButton \<Rightarrow> nat option \<Rightarrow> string \<Rightarrow> string \<Rightarrow> int \<Rightarrow> StandardButton \<Rightarrow>
   MessageBox_nq \<Rightarrow> StandardButton \<times> MessageBox_nq" where
  "question_std answer parent title txt buttons defaultButton s =
     (if m_nextAnswer_std s = QMessageBox_NoButton then
        (answer, s\<lparr>dialogs_nq := dialogs_nq s @ [Standard Question parent title txt buttons defaultButton]\<rparr>)
      else
        (let returnButton = m_nextAnswer_std s
         in (returnButton, s\<lparr>m_nextAnswer_std := QMessageBox_NoButton\<rparr>)))"

definition warning_std ::
  "StandardButton \<Rightarrow> nat option \<Rightarrow> string \<Rightarrow> string \<Rightarrow> int \<Rightarrow> StandardButton \<Rightarrow>
   MessageBox_nq \<Rightarrow> StandardButton \<times> MessageBox_nq" where
  "warning_std answer parent title txt buttons defaultButton s =
     (if m_nextAnswer_std s = QMessageBox_NoButton then
        (answer, s\<lparr>dialogs_nq := dialogs_nq s @ [Standard Warning parent title txt buttons defaultButton]\<rparr>)
      else
        (let returnButton = m_nextAnswer_std s
         in (returnButton, s\<lparr>m_nextAnswer_std := QMessageBox_NoButton\<rparr>)))"

definition setNextAnswer_std :: "StandardButton \<Rightarrow> MessageBox_nq \<Rightarrow> MessageBox_nq" where
  "setNextAnswer_std button s = s\<lparr>m_nextAnswer_std := button\<rparr>"

definition setNewNextAnswer :: "Button \<Rightarrow> MessageBox_nq \<Rightarrow> MessageBox_nq" where
  "setNewNextAnswer button s = s\<lparr>m_newNextAnswer := button\<rparr>"

text \<open>
  The \<^verbatim>\<open>switch\<close> of \<^verbatim>\<open>addButton\<close>: label and role of each case. The switch has no
  default case, so for any other value the pointer \<^verbatim>\<open>b\<close> stays uninitialised.
\<close>

definition addButton_nq_case :: "Button \<Rightarrow> (string \<times> ButtonRole) option" where
  "addButton_nq_case button =
     (if button = Ok then Some (''Ok'', AcceptRole)
      else if button = Open then Some (''Open'', AcceptRole)
      else if button = Save then Some (''Save'', AcceptRole)
      else if button = Cancel then Some (''Cancel'', RejectRole)
      else if button = Close then Some (''Close'', RejectRole)
      else if button = Discard then Some (''Discard'', DestructiveRole)
      else if button = Apply then Some (''Apply'', ApplyRole)
      else if button = Reset then Some (''Reset'', ResetRole)
      else if button = RestoreDefaults then Some (''RestoreDefaults'', ResetRole)
      else if button = Help then Some (''Help'', HelpRole)
      else if button = SaveAll then Some (''SaveAll'', AcceptRole)
      else if button = Yes then Some (''Yes'', YesRole)
      else if button = YesToAll then Some (''YesToAll'', YesRole)
      else if button = No then Some (''No'', NoRole)
      else if button = NoToAll then Some (''NoToAll'', NoRole)
      else if button = Abort then Some (''Abort'', RejectRole)
      else if button = Retry then Some (''Retry'', AcceptRole)
      else if button = Ignore then Some (''Ignore'', AcceptRole)
      else if button = Overwrite then Some (''Overwrite'', DestructiveRole)
      else if button = Delete then Some (''Delete'', DestructiveRole)
      else None)"

text \<open>
  \<^verbatim>\<open>addButton(box, button)\<close> on the box and the button map. A value without a case
  inserts an uninitialised pointer, which is undefined behaviour: no result.
\<close>

definition addButton_nq :: "QMessageBox \<times> ButtonMap \<Rightarrow> Button \<Rightarrow> (QMessageBox \<times> ButtonMap) option" where
  "addButton_nq st button =
     (if button = NoButton then Some st
      else case addButton_nq_case button of
        None \<Rightarrow> None
      | Some (label, role) \<Rightarrow>
          (let (b, box) = box_addButton label role (fst st)
           in Some (box, QMap_insert (Some b) button (snd st))))"

text \<open>
  \<^verbatim>\<open>for (uint32_t b = First; b <= Last; b <<= 1) if (b & buttons) addButton(question, b);\<close>
  from the current value of \<^verbatim>\<open>b\<close> on. Started at \<open>0\<close> the loop would not end, so
  the function is partial and its termination from \<open>First\<close> is proved below.
\<close>

partial_function (option) newQuestion_loop ::
  "32 word \<Rightarrow> Buttons \<Rightarrow> QMessageBox \<times> ButtonMap \<Rightarrow> (QMessageBox \<times> ButtonMap) option" where
  "newQuestion_loop b buttons st =
     (if b \<le> Last then
        (if b AND buttons \<noteq> 0 then
           Option.bind (addButton_nq st b) (\<lambda>st'. newQuestion_loop (push_bit 1 b) buttons st')
         else newQuestion_loop (push_bit 1 b) buttons st)
      else Some st)"

text \<open>
  \<^verbatim>\<open>newQuestion\<close>. \<open>clicked\<close> is what \<^verbatim>\<open>question.clickedButton()\<close> yields after
  \<^verbatim>\<open>exec()\<close>. The parameter \<^verbatim>\<open>defaultButton\<close> is not read by the body (the call of
  \<^verbatim>\<open>setDefaultButton\<close> is commented out in the source).
\<close>

definition newQuestion ::
  "handle option \<Rightarrow> nat option \<Rightarrow> string \<Rightarrow> string \<Rightarrow> Buttons \<Rightarrow> Button \<Rightarrow>
   MessageBox_nq \<Rightarrow> (Button \<times> MessageBox_nq) option" where
  "newQuestion clicked parent title txt buttons defaultButton s =
     (if m_newNextAnswer s = NoButton then
        (let question = (QMessageBox_new parent)
               \<lparr>box_icon := Question, box_title := title, box_text := txt\<rparr>
         in case newQuestion_loop First buttons (question, m_buttonMap_nq s) of
              None \<Rightarrow> None
            | Some (question', buttonMap) \<Rightarrow>
                (let returnButton = QMap_index buttonMap clicked
                 in Some (returnButton,
                      s\<lparr>m_buttonMap_nq := [], dialogs_nq := dialogs_nq s @ [Custom question']\<rparr>)))
      else
        (let returnButton = m_newNextAnswer s
         in Some (returnButton, s\<lparr>m_newNextAnswer := NoButton\<rparr>)))"

section \<open>MessageBox.cpp: one override slot and one dialog routine\<close>

text \<open>
  Modelled from the spec: the header that MessageBox.cpp includes is not among the
  sources. Its \<^verbatim>\<open>addButton\<close> has cases for four buttons after \<^verbatim>\<open>Delete\<close>; they are
  taken to continue the bit flags of the enumeration (``ResponseKind values are
  bit-flags'', iterated over ``the defined ordered range [First..Last]''), with
  \<^verbatim>\<open>Last\<close> moved to the last of them as the header's comment asks, and \<^verbatim>\<open>First\<close>,
  the other values and the underlying type unchanged.
\<close>

definition Move :: Button where "Move = push_bit 21 1"
definition Empty :: Button where "Empty = push_bit 22 1"
definition Remove :: Button where "Remove = push_bit 23 1"
definition Skip :: Button where "Skip = push_bit 24 1"
definition Last_mb :: Button where "Last_mb = Skip"

text \<open>The static members \<^verbatim>\<open>m_nextAnswer\<close> and \<^verbatim>\<open>m_buttonMap\<close>, and the dialogs executed so far.\<close>

record MessageBox_mb =
  m_nextAnswer :: Button
  m_buttonMap :: ButtonMap
  dialogs :: "QMessageBox list"

definition MessageBox_mb_init :: MessageBox_mb where
  "MessageBox_mb_init = \<lparr>m_nextAnswer = NoButton, m_buttonMap = [], dialogs = []\<rparr>"

definition addButton_case :: "Button \<Rightarrow> (string \<times> ButtonRole) option" where
  "addButton_case button =
     (if button = Ok then Some (''Ok'', AcceptRole)
      else if button = Open then Some (''Open'', AcceptRole)
      else if button = Save then Some (''Save'', AcceptRole)
      else if button = Cancel then Some (''Cancel'', RejectRole)
      else if button = Close then Some (''Close'', RejectRole)
      else if button = Discard then Some (''Discard'', DestructiveRole)
      else if button = Apply then Some (''Apply'', ApplyRole)
      else if button = Reset then Some (''Reset'', ResetRole)
      else if button = RestoreDefaults then Some (''RestoreDefaults'', ResetRole)
      else if button = Help then Some (''Help'', HelpRole)
      else if button = SaveAll then Some (''SaveAll'', AcceptRole)
      else if button = Yes then Some (''Yes'', YesRole)
      else if button = YesToAll then Some (''YesToAll'', YesRole)
      else if button = No then Some (''No'', NoRole)
      else if button = NoToAll then Some (''NoToAll'', NoRole)
      else if button = Abort then Some (''Abort'', RejectRole)
      else if button = Retry then Some (''Retry'', AcceptRole)
      else if button = Ignore then Some (''Ignore'', AcceptRole)
      else if button = Overwrite then Some (''Overwrite'', DestructiveRole)
      else if button = Delete then Some (''Delete'', DestructiveRole)
      else if button = Move then Some (''Move'', AcceptRole)
      else if button = Empty then Some (''Empty'', DestructiveRole)
      else if button = Remove then Some (''Remove'', DestructiveRole)
      else if button = Skip then Some (''Skip'', RejectRole)
      else None)"

definition addButton :: "QMessageBox \<times> ButtonMap \<Rightarrow> Button \<Rightarrow> (QMessageBox \<times> ButtonMap) option" where
  "addButton st button =
     (if button = NoButton then Some st
      else case addButton_case button of
        None \<Rightarrow> None
      | Some (label, role) \<Rightarrow>
          (let (b, box) = box_addButton label role (fst st)
           in Some (box, QMap_insert (Some b) button (snd st))))"

text \<open>
  \<^verbatim>\<open>for (uint64_t b = First; b <= Last; b <<= 1) if (b & buttons) addButton(msgBox, static_cast<Button>(b));\<close>
  from the current value of the 64-bit counter on.
\<close>

partial_function (option) messageBox_loop ::
  "64 word \<Rightarrow> Buttons \<Rightarrow> QMessageBox \<times> ButtonMap \<Rightarrow> (QMessageBox \<times> ButtonMap) option" where
  "messageBox_loop b buttons st =
     (if b \<le> ucast Last_mb then
        (if b AND ucast buttons \<noteq> 0 then
           Option.bind (addButton st (ucast b)) (\<lambda>st'. messageBox_loop (push_bit 1 b) buttons st')
         else messageBox_loop (push_bit 1 b) buttons st)
      else Some st)"

text \<open>
  \<^verbatim>\<open>messageBox\<close>. \<open>clicked\<close> is what \<^verbatim>\<open>msgBox.clickedButton()\<close> yields after
  \<^verbatim>\<open>exec()\<close>.
\<close>

definition messageBox ::
  "handle option \<Rightarrow> nat option \<Rightarrow> Icon \<Rightarrow> string \<Rightarrow> string \<Rightarrow> Buttons \<Rightarrow> Button \<Rightarrow>
   MessageBox_mb \<Rightarrow> (Button \<times> MessageBox_mb) option" where
  "messageBox clicked parent icon title txt buttons defaultButton s =
     (if m_nextAnswer s = NoButton then
        (let msgBox = (QMessageBox_new parent)
               \<lparr>box_icon := icon, box_title := title, box_text := txt\<rparr>
         in case messageBox_loop (ucast First) buttons (msgBox, m_buttonMap s) of
              None \<Rightarrow> None
            | Some (msgBox1, buttonMap) \<Rightarrow>
                (let msgBox2 =
                       (if defaultButton \<noteq> NoButton then
                          (let defPtrList = QMap_keys buttonMap defaultButton
                           in if length defPtrList > 0
                              then box_setDefaultButton (defPtrList ! 0) msgBox1
                              else msgBox1)
                        else msgBox1);
                     returnButton = QMap_index buttonMap clicked
                 in Some (returnButton,
                      s\<lparr>m_buttonMap := [], dialogs := dialogs s @ [msgBox2]\<rparr>)))
      else
        (let returnButton = m_nextAnswer s
         in Some (returnButton, s\<lparr>m_nextAnswer := NoButton\<rparr>)))"

definition critical ::
  "handle option \<Rightarrow> nat option \<Rightarrow> string \<Rightarrow> string \<Rightarrow> Buttons \<Rightarrow> Button \<Rightarrow>
   MessageBox_mb \<Rightarrow> (Button \<times> MessageBox_mb) option" where
  "critical clicked parent title txt buttons defaultButton s =
     messageBox clicked parent Critical title txt buttons defaultButton s"

definition information ::
  "handle option \<Rightarrow> nat option \<Rightarrow> string \<Rightarrow> string \<Rightarrow> Buttons \<Rightarrow> Button \<Rightarrow>
   MessageBox_mb \<Rightarrow> (Button \<times> MessageBox_mb) option" where
  "information clicked parent title txt buttons defaultButton s =
     messageBox clicked parent Information title txt buttons defaultButton s"

definition question ::
  "handle option \<Rightarrow> nat option \<Rightarrow> string \<Rightarrow> string \<Rightarrow> Buttons \<Rightarrow> Button \<Rightarrow>
   MessageBox_mb \<Rightarrow> (Button \<times> MessageBox_mb) option" where
  "question clicked parent title txt buttons defaultButton s =
     messageBox clicked parent Question title txt buttons defaultButton s"

definition warning ::
  "handle option \<Rightarrow> nat option \<Rightarrow> string \<Rightarrow> string \<Rightarrow> Buttons \<Rightarrow> Button \<Rightarrow>
   MessageBox_mb \<Rightarrow> (Button \<times> MessageBox_mb) option" where
  "warning clicked parent title txt buttons defaultButton s =
     messageBox clicked parent Warning title txt buttons defaultButton s"

definition setNextAnswer :: "Button \<Rightarrow> MessageBox_mb \<Rightarrow> MessageBox_mb" where
  "setNextAnswer button s = s\<lparr>m_nextAnswer := button\<rparr>"

section \<open>DatabaseWidget::deleteEntries\<close>

text \<open>
  The database, its entries and the text functions of Qt are collaborators outside the
  sources; the widget reaches them through the parameters below. \<open>qt_debug\<close> says
  whether \<^verbatim>\<open>Q_ASSERT\<close> is compiled in, \<open>in_recycleBin\<close> is
  \<^verbatim>\<open>recycleBin && recycleBin->findEntryByUuid(uuid)\<close>, \<open>delete_entry\<close> is the
  \<^verbatim>\<open>delete\<close> of an entry, \<open>arg\<close> is \<^verbatim>\<open>QString::arg\<close> and \<open>tr_n\<close> the plural
  form of \<^verbatim>\<open>tr\<close>.
\<close>

record ('e, 'db) Collaborators =
  qt_debug :: bool
  entry_title :: "'e \<Rightarrow> string"
  in_recycleBin :: "'db \<Rightarrow> 'e \<Rightarrow> bool"
  recycleBinEnabled :: "'db \<Rightarrow> bool"
  delete_entry :: "'e \<Rightarrow> 'db \<Rightarrow> 'db"
  recycleEntry :: "'e \<Rightarrow> 'db \<Rightarrow> 'db"
  tr :: "string \<Rightarrow> string"
  tr_n :: "string \<Rightarrow> nat \<Rightarrow> string"
  arg :: "string \<Rightarrow> string \<Rightarrow> string"
  toHtmlEscaped :: "string \<Rightarrow> string"

text \<open>
  The widget as far as \<^verbatim>\<open>deleteEntries\<close> touches it: the database, the static state of
  MessageBox, the number of calls of \<^verbatim>\<open>refreshSearch()\<close>, and the code passed to
  \<^verbatim>\<open>QApplication::exit\<close>, if it has been called.
\<close>

record 'db DatabaseWidget =
  m_db :: 'db
  messageBoxes :: MessageBox_nq
  searchRefreshes :: nat
  exit_code :: "int option"

datatype 'a outcome = AssertionFailed | Returned 'a

text \<open>
  \<open>selected\<close> are the entries of the selected rows, \<open>click1\<close>, \<open>click2\<close> the
  buttons the operator would click in the first and the second dialog of the call.
\<close>

definition deleteEntries ::
  "('e, 'db) Collaborators \<Rightarrow> nat \<Rightarrow> 'e list \<Rightarrow> handle option \<Rightarrow> handle option \<Rightarrow>
   'db DatabaseWidget \<Rightarrow> 'db DatabaseWidget outcome option" where
  \<open>deleteEntries c self selected click1 click2 w =
     (if selected = [] then
        (if qt_debug c then Some AssertionFailed else Some (Returned w))
      else
        (let selectedEntries = selected;
             inRecycleBin = in_recycleBin c (m_db w) (hd selectedEntries)
         in if inRecycleBin \<or> \<not> recycleBinEnabled c (m_db w) then
              (let prompt =
                     (if length selected = 1
                      then arg c (tr c ''Do you really want to delete the entry "%1" for good?'')
                             (toHtmlEscaped c (entry_title c (hd selectedEntries)))
                      else tr_n c ''Do you really want to delete %n entry(s) for good?''
                             (length selected))
               in case newQuestion click1 (Some self) (tr c ''Delete entry(s)?'') prompt
                         (Delete OR Cancel) NoButton (messageBoxes w) of
                    None \<Rightarrow> None
                  | Some (answer, mb1) \<Rightarrow>
                      (let w1 =
                             (if answer = Delete
                              then w\<lparr>m_db := fold (delete_entry c) selectedEntries (m_db w),
                                     searchRefreshes := Suc (searchRefreshes w)\<rparr>
                              else w);
                           mb2 = setNewNextAnswer NoToAll mb1
                       in case newQuestion click2 (Some self) (tr c ''Delete entry(s)?'') prompt
                                 (Delete OR Cancel) NoButton mb2 of
                            None \<Rightarrow> None
                          | Some (setAnswer, mb3) \<Rightarrow>
                              Some (Returned
                                (if setAnswer \<noteq> NoToAll
                                 then w1\<lparr>messageBoxes := mb3, exit_code := Some 22\<rparr>
                                 else w1\<lparr>messageBoxes := mb3\<rparr>))))
            else
              (let prompt =
                     (if length selected = 1
                      then arg c (tr c ''Do you really want to move entry "%1" to the recycle bin?'')
                             (toHtmlEscaped c (entry_title c (hd selectedEntries)))
                      else tr_n c ''Do you really want to move %n entry(s) to the recycle bin?''
                             (length selected));
                   question0 = (QMessageBox_new None)
                     \<lparr>box_icon := Question,
                      box_title := tr_n c ''Move entry(s) to recycle bin?'' (length selected),
                      box_text := prompt\<rparr>;
                   question1 = snd (box_addButton (tr c ''Move'') AcceptRole question0);
                   (cancel, question2) = box_addButton ''Cancel'' RejectRole question1;
                   question3 = box_setDefaultButton (Some cancel) question2;
                   mb = (messageBoxes w)
                     \<lparr>dialogs_nq := dialogs_nq (messageBoxes w) @ [Custom question3]\<rparr>
               in if click1 = Some cancel
                  then Some (Returned (w\<lparr>messageBoxes := mb\<rparr>))
                  else Some (Returned
                         (w\<lparr>m_db := fold (recycleEntry c) selectedEntries (m_db w),
                            messageBoxes := mb\<rparr>)))))\<close>

section \<open>Notions used to state the properties\<close>

text \<open>
  The enumeration in its declared order, from \<^verbatim>\<open>First\<close> to \<^verbatim>\<open>Last\<close>: for the header
  at hand, and for the enumeration of MessageBox.cpp.
\<close>

definition Button_range :: "Button list" where
  "Button_range =
     [Ok, Open, Save, Cancel, Close, Discard, Apply, Reset, RestoreDefaults, Help, SaveAll,
      Yes, YesToAll, No, NoToAll, Abort, Retry, Ignore, Overwrite, Delete]"

definition Button_range_mb :: "Button list" where
  "Button_range_mb = Button_range @ [Move, Empty, Remove, Skip]"

text \<open>The members of a requested set, in the order of the enumeration.\<close>

definition requested :: "Button list \<Rightarrow> Buttons \<Rightarrow> Button list" where
  "requested enum buttons = filter (\<lambda>b. b AND buttons \<noteq> 0) enum"

text \<open>The loop body applied to a list of flags, and the insertions it makes into the map.\<close>

fun add_each ::
  "('s \<Rightarrow> Button \<Rightarrow> 's option) \<Rightarrow> Button list \<Rightarrow> Buttons \<Rightarrow> 's \<Rightarrow> 's option" where
  "add_each add [] buttons st = Some st"
| "add_each add (b # bs) buttons st =
     (if b AND buttons \<noteq> 0 then Option.bind (add st b) (add_each add bs buttons)
      else add_each add bs buttons st)"

fun insert_each :: "nat \<Rightarrow> Button list \<Rightarrow> ButtonMap \<Rightarrow> ButtonMap" where
  "insert_each k [] m = m"
| "insert_each k (b # bs) m = insert_each (Suc k) bs (QMap_insert (Some k) b m)"

text \<open>
  The default-button step of \<^verbatim>\<open>messageBox\<close>, on the map the loop has built.
\<close>

definition set_default :: "ButtonMap \<Rightarrow> Button \<Rightarrow> QMessageBox \<Rightarrow> QMessageBox" where
  "set_default buttonMap defaultButton box =
     (if defaultButton \<noteq> NoButton then
        (let defPtrList = QMap_keys buttonMap defaultButton
         in if length defPtrList > 0 then box_setDefaultButton (defPtrList ! 0) box else box)
      else box)"

text \<open>
  The values of \<^verbatim>\<open>QMessageBox::StandardButton\<close>, the enumeration of the Qt toolkit
  (qmessagebox.h) on which the Qt-typed entry points work: its eighteen buttons, from
  \<^verbatim>\<open>FirstButton = Ok\<close> to \<^verbatim>\<open>LastButton = RestoreDefaults\<close>. Qt is not part of the
  repository; the values are those of its public interface.
\<close>

definition QMessageBox_Ok :: StandardButton where "QMessageBox_Ok = 0x00000400"
definition QMessageBox_Save :: StandardButton where "QMessageBox_Save = 0x00000800"
definition QMessageBox_SaveAll :: StandardButton where "QMessageBox_SaveAll = 0x00001000"
definition QMessageBox_Open :: StandardButton where "QMessageBox_Open = 0x00002000"
definition QMessageBox_Yes :: StandardButton where "QMessageBox_Yes = 0x00004000"
definition QMessageBox_YesToAll :: StandardButton where "QMessageBox_YesToAll = 0x00008000"
definition QMessageBox_No :: StandardButton where "QMessageBox_No = 0x00010000"
definition QMessageBox_NoToAll :: StandardButton where "QMessageBox_NoToAll = 0x00020000"
definition QMessageBox_Abort :: StandardButton where "QMessageBox_Abort = 0x00040000"
definition QMessageBox_Retry :: StandardButton where "QMessageBox_Retry = 0x00080000"
definition QMessageBox_Ignore :: StandardButton where "QMessageBox_Ignore = 0x00100000"
definition QMessageBox_Close :: StandardButton where "QMessageBox_Close = 0x00200000"
definition QMessageBox_Cancel :: StandardButton where "QMessageBox_Cancel = 0x00400000"
definition QMessageBox_Discard :: StandardButton where "QMessageBox_Discard = 0x00800000"
definition QMessageBox_Help :: StandardButton where "QMessageBox_Help = 0x01000000"
definition QMessageBox_Apply :: StandardButton where "QMessageBox_Apply = 0x02000000"
definition QMessageBox_Reset :: StandardButton where "QMessageBox_Reset = 0x04000000"
definition QMessageBox_RestoreDefaults :: StandardButton where
  "QMessageBox_RestoreDefaults = 0x08000000"

definition StandardButton_values :: "StandardButton list" where
  "StandardButton_values =
     [QMessageBox_Ok, QMessageBox_Save, QMessageBox_SaveAll, QMessageBox_Open,
      QMessageBox_Yes, QMessageBox_YesToAll, QMessageBox_No, QMessageBox_NoToAll,
      QMessageBox_Abort, QMessageBox_Retry, QMessageBox_Ignore, QMessageBox_Close,
      QMessageBox_Cancel, QMessageBox_Discard, QMessageBox_Help, QMessageBox_Apply,
      QMessageBox_Reset, QMessageBox_RestoreDefaults]"

section \<open>The loops terminate and add the requested buttons in the order of the enumeration\<close>

lemmas Button_defs =
  NoButton_def Ok_def Open_def Save_def Cancel_def Close_def Discard_def Apply_def
  Reset_def RestoreDefaults_def Help_def SaveAll_def Yes_def YesToAll_def No_def
  NoToAll_def Abort_def Retry_def Ignore_def Overwrite_def Delete_def First_def Last_def
  Move_def Empty_def Remove_def Skip_def Last_mb_def

lemma newQuestion_loop_step:
  assumes "b \<le> Last" and "push_bit 1 b = b'"
    and "\<And>st. newQuestion_loop b' buttons st = add_each addButton_nq bs buttons st"
  shows "newQuestion_loop b buttons st = add_each addButton_nq (b # bs) buttons st"
proof -
  have "(\<lambda>st'. newQuestion_loop b' buttons st') = add_each addButton_nq bs buttons"
    using assms(3) by (intro ext)
  then show ?thesis
    using assms(1,2) by (subst newQuestion_loop.simps) simp
qed

lemma newQuestion_loop_stop:
  "\<not> b \<le> Last \<Longrightarrow> newQuestion_loop b buttons st = add_each addButton_nq [] buttons st"
  by (subst newQuestion_loop.simps) simp

lemma newQuestion_loop_First:
  "newQuestion_loop First buttons st = add_each addButton_nq Button_range buttons st"
  unfolding Button_range_def First_def
  apply (rule newQuestion_loop_step [rotated 2])+
                      apply (rule newQuestion_loop_stop)
                      defer
                      apply (simp_all add: Button_defs)
  apply simp
  done

lemma and_ucast_zero:
  fixes b :: "64 word" and buttons :: "32 word"
  shows "(b AND ucast buttons = 0) = ((ucast b :: 32 word) AND buttons = 0)"
proof
  assume a: "b AND ucast buttons = 0"
  show "(ucast b :: 32 word) AND buttons = 0"
  proof (rule bit_eqI)
    fix n
    have "\<not> bit (b AND ucast buttons) n" using a by simp
    then show "bit ((ucast b :: 32 word) AND buttons) n = bit (0 :: 32 word) n"
      by (auto simp: bit_and_iff bit_ucast_iff dest: bit_imp_le_length)
  qed
next
  assume a: "(ucast b :: 32 word) AND buttons = 0"
  show "b AND ucast buttons = 0"
  proof (rule bit_eqI)
    fix n
    have "\<not> bit ((ucast b :: 32 word) AND buttons) n" using a by simp
    then show "bit (b AND ucast buttons) n = bit (0 :: 64 word) n"
      by (auto simp: bit_and_iff bit_ucast_iff dest: bit_imp_le_length)
  qed
qed

lemma messageBox_loop_step:
  assumes "b \<le> ucast Last_mb" and "push_bit 1 b = b'" and "ucast b = c"
    and "\<And>st. messageBox_loop b' buttons st = add_each addButton bs buttons st"
  shows "messageBox_loop b buttons st = add_each addButton (c # bs) buttons st"
proof -
  have "(\<lambda>st'. messageBox_loop b' buttons st') = add_each addButton bs buttons"
    using assms(4) by (intro ext)
  moreover have "(b AND ucast buttons = 0) = (c AND buttons = 0)"
    using assms(3) and_ucast_zero by blast
  ultimately show ?thesis
    using assms(1,2,3) by (subst messageBox_loop.simps) simp
qed

lemma messageBox_loop_stop:
  "\<not> b \<le> ucast Last_mb \<Longrightarrow> messageBox_loop b buttons st = add_each addButton [] buttons st"
  by (subst messageBox_loop.simps) simp

lemma messageBox_loop_First:
  "messageBox_loop (ucast First) buttons st = add_each addButton Button_range_mb buttons st"
  unfolding Button_range_def Button_range_mb_def First_def append.simps
  apply (rule messageBox_loop_step [rotated 3])+
                      apply (rule messageBox_loop_stop)
                      defer
                      apply (simp_all add: Button_defs)
  apply simp
  done

lemma addButton_nq_range:
  assumes "b \<in> set Button_range"
  shows "\<exists>lr. addButton_nq_case b = Some lr \<and>
           addButton_nq (box, m) b =
             Some (box\<lparr>box_buttons := box_buttons box @ [lr]\<rparr>,
                   QMap_insert (Some (length (box_buttons box))) b m)"
proof -
  from assms have "b \<noteq> NoButton \<and> (\<exists>lr. addButton_nq_case b = Some lr)"
    unfolding Button_range_def by (auto simp: addButton_nq_case_def Button_defs)
  then obtain lr where "addButton_nq_case b = Some lr" and "b \<noteq> NoButton" by blast
  then show ?thesis
    by (cases lr) (simp add: addButton_nq_def box_addButton_def)
qed

lemma addButton_range:
  assumes "b \<in> set Button_range_mb"
  shows "\<exists>lr. addButton_case b = Some lr \<and>
           addButton (box, m) b =
             Some (box\<lparr>box_buttons := box_buttons box @ [lr]\<rparr>,
                   QMap_insert (Some (length (box_buttons box))) b m)"
proof -
  from assms have "b \<noteq> NoButton \<and> (\<exists>lr. addButton_case b = Some lr)"
    unfolding Button_range_def Button_range_mb_def
    by (auto simp: addButton_case_def Button_defs)
  then obtain lr where "addButton_case b = Some lr" and "b \<noteq> NoButton" by blast
  then show ?thesis
    by (cases lr) (simp add: addButton_def box_addButton_def)
qed

lemma add_each_result:
  assumes "\<And>b box m. b \<in> set bs \<Longrightarrow>
             \<exists>lr. cs b = Some lr \<and>
               add (box, m) b =
                 Some (box\<lparr>box_buttons := box_buttons box @ [lr]\<rparr>,
                       QMap_insert (Some (length (box_buttons box))) b m)"
  shows "\<exists>lrs. map Some lrs = map cs (requested bs buttons) \<and>
           add_each add bs buttons (box, m) =
             Some (box\<lparr>box_buttons := box_buttons box @ lrs\<rparr>,
                   insert_each (length (box_buttons box)) (requested bs buttons) m)"
  using assms
proof (induction bs arbitrary: box m)
  case Nil
  show ?case by (simp add: requested_def)
next
  case (Cons b bs)
  have step: "\<And>box m. \<exists>lrs. map Some lrs = map cs (requested bs buttons) \<and>
           add_each add bs buttons (box, m) =
             Some (box\<lparr>box_buttons := box_buttons box @ lrs\<rparr>,
                   insert_each (length (box_buttons box)) (requested bs buttons) m)"
  proof (rule Cons.IH)
    fix b' box' m'
    assume "b' \<in> set bs"
    then have "b' \<in> set (b # bs)" by simp
    then show "\<exists>lr. cs b' = Some lr \<and>
               add (box', m') b' =
                 Some (box'\<lparr>box_buttons := box_buttons box' @ [lr]\<rparr>,
                       QMap_insert (Some (length (box_buttons box'))) b' m')"
      by (rule Cons.prems)
  qed
  show ?case
  proof (cases "b AND buttons \<noteq> 0")
    case False
    from step [of box m] show ?thesis
      using False by (simp add: requested_def)
  next
    case True
    let ?m = "QMap_insert (Some (length (box_buttons box))) b m"
    from Cons.prems [of b box m] obtain lr where
      lr: "cs b = Some lr" and
      add: "add (box, m) b = Some (box\<lparr>box_buttons := box_buttons box @ [lr]\<rparr>, ?m)"
      by auto
    let ?box = "box\<lparr>box_buttons := box_buttons box @ [lr]\<rparr>"
    from step [of ?box ?m] obtain lrs where
      lrs: "map Some lrs = map cs (requested bs buttons)" and
      run: "add_each add bs buttons (?box, ?m) =
              Some (?box\<lparr>box_buttons := box_buttons ?box @ lrs\<rparr>,
                    insert_each (length (box_buttons ?box)) (requested bs buttons) ?m)"
      by blast
    have "map Some (lr # lrs) = map cs (requested (b # bs) buttons)"
      using True lr lrs by (simp add: requested_def)
    moreover have "add_each add (b # bs) buttons (box, m) =
        Some (box\<lparr>box_buttons := box_buttons box @ (lr # lrs)\<rparr>,
              insert_each (length (box_buttons box)) (requested (b # bs) buttons) m)"
      using True run add by (simp add: requested_def)
    ultimately show ?thesis by blast
  qed
qed

section \<open>The two paths of a confirmation call\<close>

lemma newQuestion_override:
  "m_newNextAnswer s \<noteq> NoButton \<Longrightarrow>
   newQuestion clicked parent title txt buttons defaultButton s =
     Some (m_newNextAnswer s, s\<lparr>m_newNextAnswer := NoButton\<rparr>)"
  by (simp add: newQuestion_def)

lemma messageBox_override:
  "m_nextAnswer s \<noteq> NoButton \<Longrightarrow>
   messageBox clicked parent icon title txt buttons defaultButton s =
     Some (m_nextAnswer s, s\<lparr>m_nextAnswer := NoButton\<rparr>)"
  by (simp add: messageBox_def)

lemma newQuestion_dialog:
  assumes "m_newNextAnswer s = NoButton"
  shows "\<exists>lrs. map Some lrs = map addButton_nq_case (requested Button_range buttons) \<and>
    newQuestion clicked parent title txt buttons defaultButton s =
      Some (QMap_index (insert_each 0 (requested Button_range buttons) (m_buttonMap_nq s)) clicked,
        s\<lparr>m_buttonMap_nq := [],
          dialogs_nq := dialogs_nq s @
            [Custom \<lparr>box_parent = parent, box_icon = Question, box_title = title,
                     box_text = txt, box_buttons = lrs, box_default = None\<rparr>]\<rparr>)"
proof -
  let ?box = "(QMessageBox_new parent)\<lparr>box_icon := Question, box_title := title, box_text := txt\<rparr>"
  from add_each_result [of Button_range addButton_nq_case addButton_nq buttons ?box "m_buttonMap_nq s"]
  obtain lrs where
    lrs: "map Some lrs = map addButton_nq_case (requested Button_range buttons)" and
    run: "add_each addButton_nq Button_range buttons (?box, m_buttonMap_nq s) =
            Some (?box\<lparr>box_buttons := box_buttons ?box @ lrs\<rparr>,
                  insert_each (length (box_buttons ?box)) (requested Button_range buttons)
                    (m_buttonMap_nq s))"
    using addButton_nq_range by blast
  have "newQuestion clicked parent title txt buttons defaultButton s =
      Some (QMap_index (insert_each 0 (requested Button_range buttons) (m_buttonMap_nq s)) clicked,
        s\<lparr>m_buttonMap_nq := [],
          dialogs_nq := dialogs_nq s @
            [Custom \<lparr>box_parent = parent, box_icon = Question, box_title = title,
                     box_text = txt, box_buttons = lrs, box_default = None\<rparr>]\<rparr>)"
    using assms run
    by (simp add: newQuestion_def newQuestion_loop_First QMessageBox_new_def)
  with lrs show ?thesis by blast
qed

lemma messageBox_dialog:
  assumes "m_nextAnswer s = NoButton"
  shows "\<exists>lrs. map Some lrs = map addButton_case (requested Button_range_mb buttons) \<and>
    messageBox clicked parent icon title txt buttons defaultButton s =
      Some (QMap_index (insert_each 0 (requested Button_range_mb buttons) (m_buttonMap s)) clicked,
        s\<lparr>m_buttonMap := [],
          dialogs := dialogs s @
            [set_default (insert_each 0 (requested Button_range_mb buttons) (m_buttonMap s))
               defaultButton
               \<lparr>box_parent = parent, box_icon = icon, box_title = title,
                box_text = txt, box_buttons = lrs, box_default = None\<rparr>]\<rparr>)"
proof -
  let ?box = "(QMessageBox_new parent)\<lparr>box_icon := icon, box_title := title, box_text := txt\<rparr>"
  from add_each_result [of Button_range_mb addButton_case addButton buttons ?box "m_buttonMap s"]
  obtain lrs where
    lrs: "map Some lrs = map addButton_case (requested Button_range_mb buttons)" and
    run: "add_each addButton Button_range_mb buttons (?box, m_buttonMap s) =
            Some (?box\<lparr>box_buttons := box_buttons ?box @ lrs\<rparr>,
                  insert_each (length (box_buttons ?box)) (requested Button_range_mb buttons)
                    (m_buttonMap s))"
    using addButton_range by blast
  have "messageBox clicked parent icon title txt buttons defaultButton s =
      Some (QMap_index (insert_each 0 (requested Button_range_mb buttons) (m_buttonMap s)) clicked,
        s\<lparr>m_buttonMap := [],
          dialogs := dialogs s @
            [set_default (insert_each 0 (requested Button_range_mb buttons) (m_buttonMap s))
               defaultButton
               \<lparr>box_parent = parent, box_icon = icon, box_title = title,
                box_text = txt, box_buttons = lrs, box_default = None\<rparr>]\<rparr>)"
    using assms run
    by (simp add: messageBox_def messageBox_loop_First QMessageBox_new_def set_default_def Let_def)
  with lrs show ?thesis by blast
qed


lemma requested_nonzero: "k \<in> set (requested enum R) \<Longrightarrow> k \<noteq> NoButton"
  by (auto simp: requested_def NoButton_def)

text \<open>
  The four entry points of MessageBox.cpp are \<^verbatim>\<open>messageBox\<close> with their icon, and
  every call of either revision leaves the button map empty when it starts with it
  empty, as it is initially.
\<close>

lemma entry_points_are_messageBox:
  "critical clicked parent title body R d s = messageBox clicked parent Critical title body R d s"
  "information clicked parent title body R d s =
     messageBox clicked parent Information title body R d s"
  "question clicked parent title body R d s = messageBox clicked parent Question title body R d s"
  "warning clicked parent title body R d s = messageBox clicked parent Warning title body R d s"
  by (simp_all add: critical_def information_def question_def warning_def)

lemma buttonMap_stays_empty:
  "m_buttonMap MessageBox_mb_init = []"
  "m_buttonMap_nq MessageBox_nq_init = []"
  "m_buttonMap (setNextAnswer k s) = m_buttonMap s"
  "m_buttonMap_nq (setNewNextAnswer k t) = m_buttonMap_nq t"
  "m_buttonMap_nq (setNextAnswer_std q t) = m_buttonMap_nq t"
  "m_buttonMap s = [] \<Longrightarrow>
     messageBox clicked parent icon title body R d s = Some (r, s') \<Longrightarrow> m_buttonMap s' = []"
  "m_buttonMap_nq t = [] \<Longrightarrow>
     newQuestion clicked parent title body R d t = Some (r, t') \<Longrightarrow> m_buttonMap_nq t' = []"
proof -
  show "m_buttonMap MessageBox_mb_init = []" "m_buttonMap_nq MessageBox_nq_init = []"
    "m_buttonMap (setNextAnswer k s) = m_buttonMap s"
    "m_buttonMap_nq (setNewNextAnswer k t) = m_buttonMap_nq t"
    "m_buttonMap_nq (setNextAnswer_std q t) = m_buttonMap_nq t"
    by (simp_all add: MessageBox_mb_init_def MessageBox_nq_init_def setNextAnswer_def
        setNewNextAnswer_def setNextAnswer_std_def)
next
  assume e: "m_buttonMap s = []"
    and run: "messageBox clicked parent icon title body R d s = Some (r, s')"
  show "m_buttonMap s' = []"
  proof (cases "m_nextAnswer s = NoButton")
    case True
    from messageBox_dialog [OF True, of R clicked parent icon title body d] run
    show ?thesis by auto
  next
    case False
    with run e show ?thesis by (auto simp: messageBox_override)
  qed
next
  assume e: "m_buttonMap_nq t = []"
    and run: "newQuestion clicked parent title body R d t = Some (r, t')"
  show "m_buttonMap_nq t' = []"
  proof (cases "m_newNextAnswer t = NoButton")
    case True
    from newQuestion_dialog [OF True, of R clicked parent title body d] run
    show ?thesis by auto
  next
    case False
    with run e show ?thesis by (auto simp: newQuestion_override)
  qed
qed

section \<open>Scripted answers\<close>

text \<open>
  C1. For a requested set \<open>R\<close> and a button \<open>k\<close> in it: after \<^verbatim>\<open>setNextAnswer(k)\<close> (resp.
  \<^verbatim>\<open>setNewNextAnswer(k)\<close>) the confirmation call returns \<open>k\<close> and leaves a state that
  differs from the one before only in the slot, which is \<^verbatim>\<open>NoButton\<close> again: no dialog
  has been executed and the button map is untouched. The next confirmation call runs
  the dialog: it executes one dialog and returns the button that the operator clicks.
\<close>

theorem override_consumed_once:
  "(k \<in> set (requested Button_range_mb R) \<longrightarrow>
      messageBox clicked parent icon title body R d (setNextAnswer k s) =
        Some (k, s\<lparr>m_nextAnswer := NoButton\<rparr>) \<and>
      (\<exists>dlg. messageBox clicked2 parent2 icon2 title2 body2 R2 d2 (s\<lparr>m_nextAnswer := NoButton\<rparr>) =
         Some (QMap_index (insert_each 0 (requested Button_range_mb R2) (m_buttonMap s)) clicked2,
               s\<lparr>m_nextAnswer := NoButton, m_buttonMap := [], dialogs := dialogs s @ [dlg]\<rparr>))) \<and>
   (k \<in> set (requested Button_range R) \<longrightarrow>
      newQuestion clicked parent title body R d (setNewNextAnswer k t) =
        Some (k, t\<lparr>m_newNextAnswer := NoButton\<rparr>) \<and>
      (\<exists>dlg. newQuestion clicked2 parent2 title2 body2 R2 d2 (t\<lparr>m_newNextAnswer := NoButton\<rparr>) =
         Some (QMap_index (insert_each 0 (requested Button_range R2) (m_buttonMap_nq t)) clicked2,
               t\<lparr>m_newNextAnswer := NoButton, m_buttonMap_nq := [],
                 dialogs_nq := dialogs_nq t @ [Custom dlg]\<rparr>)))"
proof (intro conjI impI)
  assume "k \<in> set (requested Button_range_mb R)"
  then have "k \<noteq> NoButton" by (rule requested_nonzero)
  then show "messageBox clicked parent icon title body R d (setNextAnswer k s) =
      Some (k, s\<lparr>m_nextAnswer := NoButton\<rparr>)"
    by (simp add: messageBox_override setNextAnswer_def)
next
  have "m_nextAnswer (s\<lparr>m_nextAnswer := NoButton\<rparr>) = NoButton" by simp
  from messageBox_dialog [OF this, of R2 clicked2 parent2 icon2 title2 body2 d2]
  show "\<exists>dlg. messageBox clicked2 parent2 icon2 title2 body2 R2 d2 (s\<lparr>m_nextAnswer := NoButton\<rparr>) =
         Some (QMap_index (insert_each 0 (requested Button_range_mb R2) (m_buttonMap s)) clicked2,
               s\<lparr>m_nextAnswer := NoButton, m_buttonMap := [], dialogs := dialogs s @ [dlg]\<rparr>)"
    by auto
next
  assume "k \<in> set (requested Button_range R)"
  then have "k \<noteq> NoButton" by (rule requested_nonzero)
  then show "newQuestion clicked parent title body R d (setNewNextAnswer k t) =
      Some (k, t\<lparr>m_newNextAnswer := NoButton\<rparr>)"
    by (simp add: newQuestion_override setNewNextAnswer_def)
next
  have "m_newNextAnswer (t\<lparr>m_newNextAnswer := NoButton\<rparr>) = NoButton" by simp
  from newQuestion_dialog [OF this, of R2 clicked2 parent2 title2 body2 d2]
  show "\<exists>dlg. newQuestion clicked2 parent2 title2 body2 R2 d2 (t\<lparr>m_newNextAnswer := NoButton\<rparr>) =
         Some (QMap_index (insert_each 0 (requested Button_range R2) (m_buttonMap_nq t)) clicked2,
               t\<lparr>m_newNextAnswer := NoButton, m_buttonMap_nq := [],
                 dialogs_nq := dialogs_nq t @ [Custom dlg]\<rparr>)"
    by auto
qed

lemma requested_Delete_Cancel:
  "requested Button_range (Delete OR Cancel) = [Cancel, Delete]"
  "requested Button_range_mb (Delete OR Cancel) = [Cancel, Delete]"
  by (simp_all add: requested_def Button_range_mb_def Button_range_def Button_defs)

theorem override_consumed_once_witness:
  "Delete \<in> set (requested Button_range_mb (Delete OR Cancel)) \<and>
   Delete \<in> set (requested Button_range (Delete OR Cancel)) \<and>
   messageBox None None Question ''Delete?'' ''Really?'' (Delete OR Cancel) Cancel
     (setNextAnswer Delete MessageBox_mb_init) = Some (Delete, MessageBox_mb_init) \<and>
   newQuestion None None ''Delete?'' ''Really?'' (Delete OR Cancel) Cancel
     (setNewNextAnswer Delete MessageBox_nq_init) = Some (Delete, MessageBox_nq_init) \<and>
   (\<exists>dlg. messageBox (Some 1) None Question ''Delete?'' ''Really?'' (Delete OR Cancel) Cancel
      MessageBox_mb_init = Some (Delete, MessageBox_mb_init\<lparr>dialogs := [dlg]\<rparr>)) \<and>
   (\<exists>dlg. newQuestion (Some 1) None ''Delete?'' ''Really?'' (Delete OR Cancel) Cancel
      MessageBox_nq_init = Some (Delete, MessageBox_nq_init\<lparr>dialogs_nq := [Custom dlg]\<rparr>))"
  using override_consumed_once [of Delete "Delete OR Cancel" None None Question "''Delete?''"
      "''Really?''" Cancel MessageBox_mb_init "Some 1" None Question "''Delete?''" "''Really?''"
      "Delete OR Cancel" Cancel MessageBox_nq_init]
  by (simp add: requested_Delete_Cancel setNextAnswer_def setNewNextAnswer_def
      MessageBox_mb_init_def MessageBox_nq_init_def QMap_index_def) 


text \<open>
  C2. With the override set to \<open>k\<close>, the confirmation call returns \<open>k\<close> whatever its other
  arguments and the rest of the state are; \<open>k\<close> need not belong to the requested set.
\<close>

theorem override_independent_of_arguments:
  assumes "k \<noteq> NoButton"
  shows
    "map_option fst (messageBox c1 p1 i1 t1 x1 R1 d1 (setNextAnswer k s1)) = Some k \<and>
     map_option fst (messageBox c2 p2 i2 t2 x2 R2 d2 (setNextAnswer k s2)) = Some k \<and>
     map_option fst (newQuestion c1 p1 t1 x1 R1 d1 (setNewNextAnswer k u1)) = Some k \<and>
     map_option fst (newQuestion c2 p2 t2 x2 R2 d2 (setNewNextAnswer k u2)) = Some k"
  using assms
  by (simp add: messageBox_override newQuestion_override setNextAnswer_def setNewNextAnswer_def)

theorem override_independent_of_arguments_witness:
  "NoToAll \<noteq> NoButton \<and> NoToAll \<notin> set (requested Button_range_mb (Delete OR Cancel)) \<and>
   map_option fst (messageBox None None Question ''Delete?'' ''Really?'' (Delete OR Cancel) Cancel
     (setNextAnswer NoToAll MessageBox_mb_init)) = Some NoToAll \<and>
   map_option fst (messageBox (Some 0) (Some 7) Warning ''Save?'' [] (Yes OR No) NoButton
     (setNextAnswer NoToAll (MessageBox_mb_init\<lparr>dialogs := [QMessageBox_new None]\<rparr>))) = Some NoToAll \<and>
   map_option fst (newQuestion None None ''Delete?'' ''Really?'' (Delete OR Cancel) Cancel
     (setNewNextAnswer NoToAll MessageBox_nq_init)) = Some NoToAll \<and>
   map_option fst (newQuestion (Some 0) (Some 7) ''Save?'' [] (Yes OR No) NoButton
     (setNewNextAnswer NoToAll (MessageBox_nq_init\<lparr>m_nextAnswer_std := QMessageBox_Yes\<rparr>))) = Some NoToAll"
  using override_independent_of_arguments [of NoToAll None None Question "''Delete?''" "''Really?''"
      "Delete OR Cancel" Cancel MessageBox_mb_init "Some 0" "Some 7" Warning "''Save?''" "[]"
      "Yes OR No" NoButton "MessageBox_mb_init\<lparr>dialogs := [QMessageBox_new None]\<rparr>"
      MessageBox_nq_init "MessageBox_nq_init\<lparr>m_nextAnswer_std := QMessageBox_Yes\<rparr>"]
  by (simp add: requested_Delete_Cancel) (simp add: Button_defs)

text \<open>
  C8. \<^verbatim>\<open>setNextAnswer\<close> (and \<^verbatim>\<open>setNewNextAnswer\<close>) overwrites the slot: two calls in a
  row leave the state of the second call alone, so nothing of the first value remains,
  and the next confirmation call returns the second value.
\<close>

theorem setNextAnswer_overwrites:
  "setNextAnswer b (setNextAnswer a s) = setNextAnswer b s \<and>
   setNewNextAnswer b (setNewNextAnswer a t) = setNewNextAnswer b t \<and>
   setNextAnswer_std q (setNextAnswer_std p t) = setNextAnswer_std q t \<and>
   (b \<noteq> NoButton \<longrightarrow>
      messageBox clicked parent icon title body R d (setNextAnswer b (setNextAnswer a s)) =
        Some (b, s\<lparr>m_nextAnswer := NoButton\<rparr>) \<and>
      newQuestion clicked parent title body R d (setNewNextAnswer b (setNewNextAnswer a t)) =
        Some (b, t\<lparr>m_newNextAnswer := NoButton\<rparr>)) \<and>
   (q \<noteq> QMessageBox_NoButton \<longrightarrow>
      question_std answer parent title body Rq dq (setNextAnswer_std q (setNextAnswer_std p t)) =
        (q, t\<lparr>m_nextAnswer_std := QMessageBox_NoButton\<rparr>))"
  by (simp add: messageBox_override newQuestion_override setNextAnswer_def setNewNextAnswer_def
      setNextAnswer_std_def question_std_def)

theorem setNextAnswer_overwrites_witness:
  "Cancel \<noteq> NoButton \<and> QMessageBox_No \<noteq> QMessageBox_NoButton \<and>
   messageBox None None Question ''Delete?'' ''Really?'' (Delete OR Cancel) NoButton
     (setNextAnswer Cancel (setNextAnswer Delete MessageBox_mb_init)) =
       Some (Cancel, MessageBox_mb_init) \<and>
   newQuestion None None ''Delete?'' ''Really?'' (Delete OR Cancel) NoButton
     (setNewNextAnswer Cancel (setNewNextAnswer Delete MessageBox_nq_init)) =
       Some (Cancel, MessageBox_nq_init) \<and>
   question_std QMessageBox_Yes None ''Delete?'' ''Really?'' (QMessageBox_Yes + QMessageBox_No)
     QMessageBox_NoButton
     (setNextAnswer_std QMessageBox_No (setNextAnswer_std QMessageBox_Yes MessageBox_nq_init)) =
       (QMessageBox_No, MessageBox_nq_init)"
  using setNextAnswer_overwrites [where b = Cancel and a = Delete and s = MessageBox_mb_init
      and t = MessageBox_nq_init and q = QMessageBox_No and p = QMessageBox_Yes
      and clicked = None and parent = None and icon = Question and title = "''Delete?''"
      and body = "''Really?''" and R = "Delete OR Cancel" and d = NoButton
      and answer = QMessageBox_Yes and Rq = "QMessageBox_Yes + QMessageBox_No"
      and dq = QMessageBox_NoButton]
  by (simp add: MessageBox_mb_init_def MessageBox_nq_init_def Button_defs QMessageBox_No_def
      QMessageBox_NoButton_def setNextAnswer_def setNewNextAnswer_def setNextAnswer_std_def)

text \<open>
  C10. \<^verbatim>\<open>setNextAnswer(NoButton)\<close> leaves the slot as it is initially: the next
  confirmation call executes a dialog. A call that executes no dialog returns the value
  of the slot, which is not \<^verbatim>\<open>NoButton\<close>.
\<close>

theorem NoButton_clears_override:
  "setNextAnswer NoButton MessageBox_mb_init = MessageBox_mb_init \<and>
   setNewNextAnswer NoButton MessageBox_nq_init = MessageBox_nq_init \<and>
   (\<exists>dlg. messageBox clicked parent icon title body R d (setNextAnswer NoButton s) =
      Some (QMap_index (insert_each 0 (requested Button_range_mb R) (m_buttonMap s)) clicked,
            s\<lparr>m_nextAnswer := NoButton, m_buttonMap := [], dialogs := dialogs s @ [dlg]\<rparr>)) \<and>
   (\<exists>dlg. newQuestion clicked parent title body R d (setNewNextAnswer NoButton t) =
      Some (QMap_index (insert_each 0 (requested Button_range R) (m_buttonMap_nq t)) clicked,
            t\<lparr>m_newNextAnswer := NoButton, m_buttonMap_nq := [],
              dialogs_nq := dialogs_nq t @ [Custom dlg]\<rparr>)) \<and>
   (messageBox clicked parent icon title body R d s = Some (r, s') \<and> dialogs s' = dialogs s
      \<longrightarrow> r \<noteq> NoButton \<and> r = m_nextAnswer s) \<and>
   (newQuestion clicked parent title body R d t = Some (r, t') \<and> dialogs_nq t' = dialogs_nq t
      \<longrightarrow> r \<noteq> NoButton \<and> r = m_newNextAnswer t)"
proof (intro conjI impI)
  show "setNextAnswer NoButton MessageBox_mb_init = MessageBox_mb_init"
    by (simp add: setNextAnswer_def MessageBox_mb_init_def)
  show "setNewNextAnswer NoButton MessageBox_nq_init = MessageBox_nq_init"
    by (simp add: setNewNextAnswer_def MessageBox_nq_init_def)
  have "m_nextAnswer (setNextAnswer NoButton s) = NoButton"
    by (simp add: setNextAnswer_def)
  from messageBox_dialog [OF this, of R clicked parent icon title body d]
  show "\<exists>dlg. messageBox clicked parent icon title body R d (setNextAnswer NoButton s) =
      Some (QMap_index (insert_each 0 (requested Button_range_mb R) (m_buttonMap s)) clicked,
            s\<lparr>m_nextAnswer := NoButton, m_buttonMap := [], dialogs := dialogs s @ [dlg]\<rparr>)"
    by (auto simp: setNextAnswer_def)
  have "m_newNextAnswer (setNewNextAnswer NoButton t) = NoButton"
    by (simp add: setNewNextAnswer_def)
  from newQuestion_dialog [OF this, of R clicked parent title body d]
  show "\<exists>dlg. newQuestion clicked parent title body R d (setNewNextAnswer NoButton t) =
      Some (QMap_index (insert_each 0 (requested Button_range R) (m_buttonMap_nq t)) clicked,
            t\<lparr>m_newNextAnswer := NoButton, m_buttonMap_nq := [],
              dialogs_nq := dialogs_nq t @ [Custom dlg]\<rparr>)"
    by (auto simp: setNewNextAnswer_def)
next
  assume a: "messageBox clicked parent icon title body R d s = Some (r, s') \<and> dialogs s' = dialogs s"
  have ov: "m_nextAnswer s \<noteq> NoButton"
  proof
    assume "m_nextAnswer s = NoButton"
    from messageBox_dialog [OF this, of R clicked parent icon title body d] a
    show False by auto
  qed
  with a show "r \<noteq> NoButton" "r = m_nextAnswer s"
    by (simp_all add: messageBox_override)
next
  assume a: "newQuestion clicked parent title body R d t = Some (r, t') \<and> dialogs_nq t' = dialogs_nq t"
  have ov: "m_newNextAnswer t \<noteq> NoButton"
  proof
    assume "m_newNextAnswer t = NoButton"
    from newQuestion_dialog [OF this, of R clicked parent title body d] a
    show False by auto
  qed
  with a show "r \<noteq> NoButton" "r = m_newNextAnswer t"
    by (simp_all add: newQuestion_override)
qed

theorem NoButton_clears_override_witness:
  "messageBox None None Question ''Delete?'' ''Really?'' (Delete OR Cancel) NoButton
     (setNextAnswer Cancel MessageBox_mb_init) = Some (Cancel, MessageBox_mb_init) \<and>
   dialogs MessageBox_mb_init = dialogs (setNextAnswer Cancel MessageBox_mb_init) \<and>
   newQuestion None None ''Delete?'' ''Really?'' (Delete OR Cancel) NoButton
     (setNewNextAnswer Cancel MessageBox_nq_init) = Some (Cancel, MessageBox_nq_init) \<and>
   dialogs_nq MessageBox_nq_init = dialogs_nq (setNewNextAnswer Cancel MessageBox_nq_init) \<and>
   Cancel \<noteq> NoButton \<and>
   (\<exists>dlg. messageBox None None Question ''Delete?'' ''Really?'' (Delete OR Cancel) NoButton
      (setNextAnswer NoButton (setNextAnswer Cancel MessageBox_mb_init)) =
        Some (NoButton, MessageBox_mb_init\<lparr>dialogs := [dlg]\<rparr>)) \<and>
   (\<exists>dlg. newQuestion None None ''Delete?'' ''Really?'' (Delete OR Cancel) NoButton
      (setNewNextAnswer NoButton (setNewNextAnswer Cancel MessageBox_nq_init)) =
        Some (NoButton, MessageBox_nq_init\<lparr>dialogs_nq := [Custom dlg]\<rparr>))"
proof -
  have a: "messageBox None None Question ''Delete?'' ''Really?'' (Delete OR Cancel) NoButton
     (setNextAnswer Cancel MessageBox_mb_init) = Some (Cancel, MessageBox_mb_init)"
    by (simp add: messageBox_def setNextAnswer_def MessageBox_mb_init_def Button_defs)
  have b: "newQuestion None None ''Delete?'' ''Really?'' (Delete OR Cancel) NoButton
     (setNewNextAnswer Cancel MessageBox_nq_init) = Some (Cancel, MessageBox_nq_init)"
    by (simp add: newQuestion_def setNewNextAnswer_def MessageBox_nq_init_def Button_defs)
  have c: "dialogs MessageBox_mb_init = dialogs (setNextAnswer Cancel MessageBox_mb_init)"
    "dialogs_nq MessageBox_nq_init = dialogs_nq (setNewNextAnswer Cancel MessageBox_nq_init)"
    by (simp_all add: setNextAnswer_def setNewNextAnswer_def)
  from NoButton_clears_override [where clicked = None and parent = None and icon = Question
      and title = "''Delete?''" and body = "''Really?''" and R = "Delete OR Cancel"
      and d = NoButton and s = "setNextAnswer Cancel MessageBox_mb_init"
      and t = "setNewNextAnswer Cancel MessageBox_nq_init" and r = Cancel
      and s' = MessageBox_mb_init and t' = MessageBox_nq_init] a b c
  show ?thesis
    by (simp add: requested_Delete_Cancel setNextAnswer_def setNewNextAnswer_def
        MessageBox_mb_init_def MessageBox_nq_init_def QMap_index_def NoButton_def)
qed

text \<open>
  C6. The two slots are independent: each setter leaves the other slot alone, the
  Qt-typed entry points neither read nor write \<^verbatim>\<open>m_newNextAnswer\<close>, and \<^verbatim>\<open>newQuestion\<close>
  neither reads nor writes \<^verbatim>\<open>m_nextAnswer\<close>.
\<close>

theorem override_slots_independent:
  "m_nextAnswer_std (setNewNextAnswer b t) = m_nextAnswer_std t \<and>
   m_newNextAnswer (setNextAnswer_std q t) = m_newNextAnswer t \<and>
   m_newNextAnswer (snd (critical_std a p title body R d t)) = m_newNextAnswer t \<and>
   m_newNextAnswer (snd (information_std a p title body R d t)) = m_newNextAnswer t \<and>
   m_newNextAnswer (snd (question_std a p title body R d t)) = m_newNextAnswer t \<and>
   m_newNextAnswer (snd (warning_std a p title body R d t)) = m_newNextAnswer t \<and>
   critical_std a p title body R d (t\<lparr>m_newNextAnswer := v\<rparr>) =
     (fst (critical_std a p title body R d t),
      (snd (critical_std a p title body R d t))\<lparr>m_newNextAnswer := v\<rparr>) \<and>
   information_std a p title body R d (t\<lparr>m_newNextAnswer := v\<rparr>) =
     (fst (information_std a p title body R d t),
      (snd (information_std a p title body R d t))\<lparr>m_newNextAnswer := v\<rparr>) \<and>
   question_std a p title body R d (t\<lparr>m_newNextAnswer := v\<rparr>) =
     (fst (question_std a p title body R d t),
      (snd (question_std a p title body R d t))\<lparr>m_newNextAnswer := v\<rparr>) \<and>
   warning_std a p title body R d (t\<lparr>m_newNextAnswer := v\<rparr>) =
     (fst (warning_std a p title body R d t),
      (snd (warning_std a p title body R d t))\<lparr>m_newNextAnswer := v\<rparr>) \<and>
   (\<exists>r t'. newQuestion clicked p title body Rn dn t = Some (r, t') \<and>
      m_nextAnswer_std t' = m_nextAnswer_std t) \<and>
   newQuestion clicked p title body Rn dn (t\<lparr>m_nextAnswer_std := q\<rparr>) =
     map_option (\<lambda>(r, t'). (r, t'\<lparr>m_nextAnswer_std := q\<rparr>))
       (newQuestion clicked p title body Rn dn t)"
proof -
  have total: "\<exists>r t'. newQuestion clicked p title body Rn dn t = Some (r, t') \<and>
      m_nextAnswer_std t' = m_nextAnswer_std t"
  proof (cases "m_newNextAnswer t = NoButton")
    case True
    from newQuestion_dialog [OF True, of Rn clicked p title body dn] show ?thesis by auto
  next
    case False
    then show ?thesis by (simp add: newQuestion_override)
  qed
  have frame: "newQuestion clicked p title body Rn dn (t\<lparr>m_nextAnswer_std := q\<rparr>) =
     map_option (\<lambda>(r, t'). (r, t'\<lparr>m_nextAnswer_std := q\<rparr>))
       (newQuestion clicked p title body Rn dn t)"
    by (simp add: newQuestion_def split: option.splits prod.splits)
  show ?thesis
    using total frame
    by (simp add: setNewNextAnswer_def setNextAnswer_std_def critical_std_def
        information_std_def question_std_def warning_std_def)
qed

theorem override_slots_independent_witness:
  "question_std QMessageBox_Yes None ''Save?'' [] (QMessageBox_Yes + QMessageBox_No)
     QMessageBox_NoButton
     (setNextAnswer_std QMessageBox_No (setNewNextAnswer Delete MessageBox_nq_init)) =
       (QMessageBox_No, setNewNextAnswer Delete MessageBox_nq_init) \<and>
   newQuestion None None ''Delete?'' ''Really?'' (Delete OR Cancel) NoButton
     (setNextAnswer_std QMessageBox_No (setNewNextAnswer Delete MessageBox_nq_init)) =
       Some (Delete, setNextAnswer_std QMessageBox_No MessageBox_nq_init)"
  using override_slots_independent [where t = "setNewNextAnswer Delete MessageBox_nq_init"
      and q = QMessageBox_No and v = Delete and clicked = None and p = None
      and title = "''Delete?''" and body = "''Really?''" and Rn = "Delete OR Cancel"
      and dn = NoButton]
  by (simp add: question_std_def newQuestion_def setNextAnswer_std_def setNewNextAnswer_def
      MessageBox_nq_init_def Button_defs QMessageBox_No_def QMessageBox_NoButton_def)

section \<open>The button map of a dialog\<close>

lemma upt_add_Suc: "[k..<k + Suc n] = k # [Suc k..<Suc k + n]"
  by (simp add: upt_conv_Cons del: upt_Suc)

lemma QMap_insert_fresh:
  "\<forall>k \<in> fst ` set m. k < k0 \<Longrightarrow> QMap_insert k0 v m = m @ [(k0, v)]"
  by (induction m) auto

lemma insert_each_fresh:
  "\<forall>k' \<in> fst ` set m. k' < Some k \<Longrightarrow>
   insert_each k bs m = m @ zip (map Some [k..<k + length bs]) bs"
proof (induction bs arbitrary: k m)
  case Nil
  show ?case by simp
next
  case (Cons b bs)
  have ins: "QMap_insert (Some k) b m = m @ [(Some k, b)]"
    using Cons.prems by (rule QMap_insert_fresh)
  have "\<forall>k' \<in> fst ` set (m @ [(Some k, b)]). k' < Some (Suc k)"
    using Cons.prems by (auto intro: less_trans)
  from Cons.IH [OF this] show ?case
    using upt_add_Suc [of k "length bs"] by (simp add: ins del: upt_Suc)
qed

lemma insert_each_empty:
  "insert_each 0 bs [] = zip (map Some [0..<length bs]) bs"
  using insert_each_fresh [of "[]" 0 bs] by simp

lemma QMap_keys_absent: "d \<notin> set xs \<Longrightarrow> QMap_keys (zip ks xs) d = []"
  by (auto simp: QMap_keys_def filter_empty_conv dest: set_zip_rightD)

lemma QMap_keys_distinct:
  "distinct xs \<Longrightarrow> d \<in> set xs \<Longrightarrow>
   \<exists>i < length xs. xs ! i = d \<and> QMap_keys (zip (map Some [k..<k + length xs]) xs) d = [Some (k + i)]"
proof (induction xs arbitrary: k)
  case Nil
  then show ?case by simp
next
  case (Cons x xs)
  have unfold: "zip (map Some [k..<k + length (x # xs)]) (x # xs) =
      (Some k, x) # zip (map Some [Suc k..<Suc k + length xs]) xs"
    using upt_add_Suc [of k "length xs"] by (simp del: upt_Suc)
  show ?case
  proof (cases "d = x")
    case True
    then have "d \<notin> set xs" using Cons.prems by simp
    then have "QMap_keys (zip (map Some [Suc k..<Suc k + length xs]) xs) d = []"
      by (rule QMap_keys_absent)
    then have "QMap_keys (zip (map Some [k..<k + length (x # xs)]) (x # xs)) d = [Some (k + 0)]"
      using True unfolding unfold by (simp add: QMap_keys_def)
    moreover have "(x # xs) ! 0 = d" using True by simp
    ultimately show ?thesis by blast
  next
    case False
    then have "d \<in> set xs" and "distinct xs" using Cons.prems by simp_all
    from Cons.IH [OF this(2) this(1), of "Suc k"] obtain i where
      i: "i < length xs" "xs ! i = d"
      "QMap_keys (zip (map Some [Suc k..<Suc k + length xs]) xs) d = [Some (Suc k + i)]"
      by blast
    have "QMap_keys (zip (map Some [k..<k + length (x # xs)]) (x # xs)) d = [Some (k + Suc i)]"
      using False i(3) unfolding unfold by (simp add: QMap_keys_def)
    moreover have "Suc i < length (x # xs)" "(x # xs) ! Suc i = d" using i by simp_all
    ultimately show ?thesis by blast
  qed
qed

lemma distinct_Button_range_mb: "distinct Button_range_mb"
  by (simp add: Button_range_mb_def Button_range_def Button_defs)

lemma distinct_requested: "distinct enum \<Longrightarrow> distinct (requested enum R)"
  by (simp add: requested_def)

lemma box_buttons_set_default [simp]: "box_buttons (set_default m d box) = box_buttons box"
  by (simp add: set_default_def box_setDefaultButton_def Let_def split: option.splits)

lemma set_default_member:
  assumes "d \<in> set xs" and "distinct xs" and "d \<noteq> NoButton"
    and "length (box_buttons box) = length xs"
  shows "\<exists>i < length xs. xs ! i = d \<and>
           set_default (zip (map Some [0..<length xs]) xs) d box = box\<lparr>box_default := Some i\<rparr>"
proof -
  from QMap_keys_distinct [OF assms(2,1), of 0] obtain i where
    i: "i < length xs" "xs ! i = d" "QMap_keys (zip (map Some [0..<length xs]) xs) d = [Some i]"
    by auto
  then have "set_default (zip (map Some [0..<length xs]) xs) d box = box\<lparr>box_default := Some i\<rparr>"
    using assms(3,4) by (simp add: set_default_def box_setDefaultButton_def)
  with i show ?thesis by blast
qed

lemma set_default_absent:
  assumes "d \<notin> set xs \<or> d = NoButton"
  shows "set_default (zip ks xs) d box = box"
  using assms by (auto simp: set_default_def QMap_keys_absent)

section \<open>The buttons of a dialog\<close>

lemma requested_Cancel_Ok:
  "requested Button_range (Cancel OR Ok) = [Ok, Cancel]"
  "requested Button_range_mb (Cancel OR Ok) = [Ok, Cancel]"
  by (simp_all add: requested_def Button_range_mb_def Button_range_def Button_defs)

lemma sorted_Button_range_mb: "sorted_wrt (<) Button_range_mb"
  by (simp add: Button_range_mb_def Button_range_def Button_defs)

text \<open>
  C3. A confirmation call without override executes a dialog whose buttons are the
  members of the requested set in the order of the enumeration, from \<^verbatim>\<open>First\<close> to
  \<^verbatim>\<open>Last\<close>, each with the label and role of its case in \<^verbatim>\<open>addButton\<close>. The
  enumeration is strictly ascending, the order does not depend on how the caller
  combined the flags, and \<^verbatim>\<open>Cancel | Ok\<close> gives \<^verbatim>\<open>Ok\<close> before \<^verbatim>\<open>Cancel\<close>.
\<close>

theorem buttons_in_enumeration_order:
  "(m_nextAnswer s = NoButton \<longrightarrow>
      (\<exists>r dlg. messageBox clicked parent icon title body R d s =
          Some (r, s\<lparr>m_buttonMap := [], dialogs := dialogs s @ [dlg]\<rparr>) \<and>
        map Some (box_buttons dlg) = map addButton_case (requested Button_range_mb R))) \<and>
   (m_newNextAnswer t = NoButton \<longrightarrow>
      (\<exists>r dlg. newQuestion clicked parent title body R d t =
          Some (r, t\<lparr>m_buttonMap_nq := [], dialogs_nq := dialogs_nq t @ [Custom dlg]\<rparr>) \<and>
        map Some (box_buttons dlg) = map addButton_nq_case (requested Button_range R))) \<and>
   sorted_wrt (<) Button_range_mb \<and>
   sorted_wrt (<) (requested Button_range_mb R) \<and> sorted_wrt (<) (requested Button_range R) \<and>
   Button_range_mb = Button_range @ [Move, Empty, Remove, Skip] \<and>
   hd Button_range = First \<and> last Button_range = Last \<and> last Button_range_mb = Last_mb \<and>
   requested enum (x OR y) = requested enum (y OR x) \<and>
   requested Button_range (Cancel OR Ok) = [Ok, Cancel] \<and>
   requested Button_range_mb (Cancel OR Ok) = [Ok, Cancel]"
proof (intro conjI impI)
  assume "m_nextAnswer s = NoButton"
  from messageBox_dialog [OF this, of R clicked parent icon title body d]
  show "\<exists>r dlg. messageBox clicked parent icon title body R d s =
          Some (r, s\<lparr>m_buttonMap := [], dialogs := dialogs s @ [dlg]\<rparr>) \<and>
        map Some (box_buttons dlg) = map addButton_case (requested Button_range_mb R)"
    by force
next
  assume "m_newNextAnswer t = NoButton"
  from newQuestion_dialog [OF this, of R clicked parent title body d]
  show "\<exists>r dlg. newQuestion clicked parent title body R d t =
          Some (r, t\<lparr>m_buttonMap_nq := [], dialogs_nq := dialogs_nq t @ [Custom dlg]\<rparr>) \<and>
        map Some (box_buttons dlg) = map addButton_nq_case (requested Button_range R)"
    by force
next
  show "sorted_wrt (<) Button_range_mb" by (rule sorted_Button_range_mb)
  show "sorted_wrt (<) (requested Button_range_mb R)"
    unfolding requested_def by (rule sorted_wrt_filter [OF sorted_Button_range_mb])
  have "sorted_wrt (<) Button_range"
    using sorted_Button_range_mb by (simp add: Button_range_mb_def sorted_wrt_append)
  then show "sorted_wrt (<) (requested Button_range R)"
    unfolding requested_def by (rule sorted_wrt_filter)
  show "Button_range_mb = Button_range @ [Move, Empty, Remove, Skip]"
    by (simp add: Button_range_mb_def)
  show "hd Button_range = First" "last Button_range = Last" "last Button_range_mb = Last_mb"
    by (simp_all add: Button_range_mb_def Button_range_def First_def Last_def Last_mb_def)
  show "requested enum (x OR y) = requested enum (y OR x)"
    by (simp add: or.commute)
  show "requested Button_range (Cancel OR Ok) = [Ok, Cancel]"
    "requested Button_range_mb (Cancel OR Ok) = [Ok, Cancel]"
    by (rule requested_Cancel_Ok)+
qed

theorem buttons_in_enumeration_order_witness:
  "m_nextAnswer MessageBox_mb_init = NoButton \<and> m_newNextAnswer MessageBox_nq_init = NoButton \<and>
   (\<exists>r dlg. messageBox None None Question ''Delete?'' ''Really?'' (Cancel OR Ok) NoButton
        MessageBox_mb_init = Some (r, MessageBox_mb_init\<lparr>dialogs := [dlg]\<rparr>) \<and>
      box_buttons dlg = [(''Ok'', AcceptRole), (''Cancel'', RejectRole)]) \<and>
   (\<exists>r dlg. newQuestion None None ''Delete?'' ''Really?'' (Cancel OR Ok) NoButton
        MessageBox_nq_init = Some (r, MessageBox_nq_init\<lparr>dialogs_nq := [Custom dlg]\<rparr>) \<and>
      box_buttons dlg = [(''Ok'', AcceptRole), (''Cancel'', RejectRole)])"
proof -
  have a: "addButton_case Ok = Some (''Ok'', AcceptRole)"
    "addButton_case Cancel = Some (''Cancel'', RejectRole)"
    "addButton_nq_case Ok = Some (''Ok'', AcceptRole)"
    "addButton_nq_case Cancel = Some (''Cancel'', RejectRole)"
    by (simp_all add: addButton_case_def addButton_nq_case_def Button_defs)
  have b: "\<And>xs p q. (map Some xs = [Some p, Some q]) = (xs = [p, q])"
    by auto
  from buttons_in_enumeration_order [where s = MessageBox_mb_init and t = MessageBox_nq_init
      and clicked = None and parent = None and icon = Question and title = "''Delete?''"
      and body = "''Really?''" and R = "Cancel OR Ok" and d = NoButton]
  show ?thesis
    by (simp add: a b requested_Cancel_Ok MessageBox_mb_init_def MessageBox_nq_init_def)
qed

text \<open>
  The default button in \<^verbatim>\<open>messageBox\<close> of MessageBox.cpp: a default that belongs to the
  requested set marks the button created for it, any other default marks none.
\<close>

lemma messageBox_defaultButton:
  assumes "m_nextAnswer s = NoButton" and "m_buttonMap s = []"
  shows "\<exists>r dlg. messageBox clicked parent icon title body R d s =
            Some (r, s\<lparr>m_buttonMap := [], dialogs := dialogs s @ [dlg]\<rparr>) \<and>
          (if d \<in> set (requested Button_range_mb R)
           then \<exists>h < length (box_buttons dlg).
                  box_default dlg = Some h \<and> addButton_case d = Some (box_buttons dlg ! h)
           else box_default dlg = None)"
proof -
  let ?req = "requested Button_range_mb R"
  let ?m = "zip (map Some [0..<length ?req]) ?req"
  from messageBox_dialog [OF assms(1), of R clicked parent icon title body d] obtain lrs where
    lrs: "map Some lrs = map addButton_case ?req" and
    run: "messageBox clicked parent icon title body R d s =
      Some (QMap_index ?m clicked,
        s\<lparr>m_buttonMap := [],
          dialogs := dialogs s @
            [set_default ?m d
               \<lparr>box_parent = parent, box_icon = icon, box_title = title,
                box_text = body, box_buttons = lrs, box_default = None\<rparr>]\<rparr>)"
    by (auto simp: assms(2) insert_each_empty)
  let ?box = "\<lparr>box_parent = parent, box_icon = icon, box_title = title,
                box_text = body, box_buttons = lrs, box_default = None\<rparr>"
  have len: "length lrs = length ?req"
    using lrs by (metis length_map)
  have nth: "\<And>i. i < length ?req \<Longrightarrow> addButton_case (?req ! i) = Some (lrs ! i)"
  proof -
    fix i assume i: "i < length ?req"
    then have "map Some lrs ! i = map addButton_case ?req ! i" using lrs by simp
    then show "addButton_case (?req ! i) = Some (lrs ! i)" using i len by simp
  qed
  show ?thesis
  proof (cases "d \<in> set ?req")
    case True
    then have dn: "d \<noteq> NoButton" by (rule requested_nonzero)
    have "distinct ?req" by (rule distinct_requested [OF distinct_Button_range_mb])
    from set_default_member [OF True this dn, of ?box] len obtain i where
      i: "i < length ?req" "?req ! i = d" "set_default ?m d ?box = ?box\<lparr>box_default := Some i\<rparr>"
      by auto
    have "addButton_case d = Some (lrs ! i)" using nth [OF i(1)] i(2) by simp
    then show ?thesis using run i len True by auto
  next
    case False
    then have "set_default ?m d ?box = ?box" by (simp add: set_default_absent)
    then show ?thesis using run False by auto
  qed
qed

text \<open>
  C4. \<^verbatim>\<open>newQuestion\<close> takes a \<^verbatim>\<open>defaultButton\<close> and drops it: asked for
  \<^verbatim>\<open>Delete | Cancel\<close> with default \<^verbatim>\<open>Cancel\<close>, it executes a dialog without a default
  button, where \<^verbatim>\<open>messageBox\<close> marks the button created for \<^verbatim>\<open>Cancel\<close>.
\<close>

theorem newQuestion_ignores_defaultButton:
  "Cancel \<in> set (requested Button_range (Delete OR Cancel)) \<and>
   newQuestion (Some 0) None ''Delete?'' ''Really?'' (Delete OR Cancel) Cancel MessageBox_nq_init =
     Some (Cancel, MessageBox_nq_init\<lparr>dialogs_nq :=
       [Custom \<lparr>box_parent = None, box_icon = Question, box_title = ''Delete?'',
                box_text = ''Really?'',
                box_buttons = [(''Cancel'', RejectRole), (''Delete'', DestructiveRole)],
                box_default = None\<rparr>]\<rparr>) \<and>
   messageBox (Some 0) None Question ''Delete?'' ''Really?'' (Delete OR Cancel) Cancel
       MessageBox_mb_init =
     Some (Cancel, MessageBox_mb_init\<lparr>dialogs :=
       [\<lparr>box_parent = None, box_icon = Question, box_title = ''Delete?'',
         box_text = ''Really?'',
         box_buttons = [(''Cancel'', RejectRole), (''Delete'', DestructiveRole)],
         box_default = Some 0\<rparr>]\<rparr>)"
proof -
  have a: "addButton_case Delete = Some (''Delete'', DestructiveRole)"
    "addButton_case Cancel = Some (''Cancel'', RejectRole)"
    "addButton_nq_case Delete = Some (''Delete'', DestructiveRole)"
    "addButton_nq_case Cancel = Some (''Cancel'', RejectRole)"
    "Cancel \<noteq> NoButton" "Delete \<noteq> NoButton" "Cancel \<noteq> Delete"
    by (simp_all add: addButton_case_def addButton_nq_case_def Button_defs)
  have b: "\<And>xs p q. (map Some xs = [Some p, Some q]) = (xs = [p, q])"
    by auto
  have i: "m_nextAnswer MessageBox_mb_init = NoButton" "m_newNextAnswer MessageBox_nq_init = NoButton"
    by (simp_all add: MessageBox_mb_init_def MessageBox_nq_init_def)
  from newQuestion_dialog [OF i(2), of "Delete OR Cancel" "Some 0" None "''Delete?''" "''Really?''" Cancel]
    messageBox_dialog [OF i(1), of "Delete OR Cancel" "Some 0" None Question "''Delete?''" "''Really?''" Cancel]
  show ?thesis
    using a
    by (simp add: b requested_Delete_Cancel MessageBox_mb_init_def MessageBox_nq_init_def
        QMap_index_def set_default_def QMap_keys_def box_setDefaultButton_def)
qed

text \<open>
  C5, as stated: an empty requested set is rejected rather than shown. It is not: both
  routines execute a dialog to which they have added no button, and return
  \<^verbatim>\<open>NoButton\<close>.
\<close>

theorem empty_set_not_rejected:
  "newQuestion (Some 0) None ''Delete?'' ''Really?'' 0 NoButton MessageBox_nq_init =
     Some (NoButton, MessageBox_nq_init\<lparr>dialogs_nq :=
       [Custom \<lparr>box_parent = None, box_icon = Question, box_title = ''Delete?'',
                box_text = ''Really?'', box_buttons = [], box_default = None\<rparr>]\<rparr>) \<and>
   messageBox (Some 0) None Question ''Delete?'' ''Really?'' 0 NoButton MessageBox_mb_init =
     Some (NoButton, MessageBox_mb_init\<lparr>dialogs :=
       [\<lparr>box_parent = None, box_icon = Question, box_title = ''Delete?'',
         box_text = ''Really?'', box_buttons = [], box_default = None\<rparr>]\<rparr>)"
proof -
  have i: "m_nextAnswer MessageBox_mb_init = NoButton" "m_newNextAnswer MessageBox_nq_init = NoButton"
    by (simp_all add: MessageBox_mb_init_def MessageBox_nq_init_def)
  from newQuestion_dialog [OF i(2), of 0 "Some 0" None "''Delete?''" "''Really?''" NoButton]
    messageBox_dialog [OF i(1), of 0 "Some 0" None Question "''Delete?''" "''Really?''" NoButton]
  show ?thesis
    by (simp add: requested_def MessageBox_mb_init_def MessageBox_nq_init_def
        QMap_index_def set_default_def NoButton_def)
qed

text \<open>
  C5, amended. With no override pending and the button map empty, as every call leaves
  it, a call with the empty set executes a dialog without any button of the
  component's and returns \<^verbatim>\<open>NoButton\<close>, whatever the operator does and whatever the
  default is.
\<close>

theorem empty_set_shows_buttonless_dialog:
  "(m_nextAnswer s = NoButton \<and> m_buttonMap s = [] \<longrightarrow>
      messageBox clicked parent icon title body 0 d s =
        Some (NoButton, s\<lparr>m_buttonMap := [], dialogs := dialogs s @
          [\<lparr>box_parent = parent, box_icon = icon, box_title = title, box_text = body,
            box_buttons = [], box_default = None\<rparr>]\<rparr>)) \<and>
   (m_newNextAnswer t = NoButton \<and> m_buttonMap_nq t = [] \<longrightarrow>
      newQuestion clicked parent title body 0 d t =
        Some (NoButton, t\<lparr>m_buttonMap_nq := [], dialogs_nq := dialogs_nq t @
          [Custom \<lparr>box_parent = parent, box_icon = Question, box_title = title, box_text = body,
            box_buttons = [], box_default = None\<rparr>]\<rparr>))"
proof (intro conjI impI)
  assume a: "m_nextAnswer s = NoButton \<and> m_buttonMap s = []"
  then have "m_nextAnswer s = NoButton" by simp
  from messageBox_dialog [OF this, of 0 clicked parent icon title body d] a
  show "messageBox clicked parent icon title body 0 d s =
        Some (NoButton, s\<lparr>m_buttonMap := [], dialogs := dialogs s @
          [\<lparr>box_parent = parent, box_icon = icon, box_title = title, box_text = body,
            box_buttons = [], box_default = None\<rparr>]\<rparr>)"
    by (simp add: requested_def QMap_index_def set_default_def QMap_keys_def NoButton_def)
next
  assume a: "m_newNextAnswer t = NoButton \<and> m_buttonMap_nq t = []"
  then have "m_newNextAnswer t = NoButton" by simp
  from newQuestion_dialog [OF this, of 0 clicked parent title body d] a
  show "newQuestion clicked parent title body 0 d t =
        Some (NoButton, t\<lparr>m_buttonMap_nq := [], dialogs_nq := dialogs_nq t @
          [Custom \<lparr>box_parent = parent, box_icon = Question, box_title = title, box_text = body,
            box_buttons = [], box_default = None\<rparr>]\<rparr>)"
    by (simp add: requested_def QMap_index_def NoButton_def)
qed

theorem empty_set_shows_buttonless_dialog_witness:
  "m_nextAnswer MessageBox_mb_init = NoButton \<and> m_buttonMap MessageBox_mb_init = [] \<and>
   m_newNextAnswer MessageBox_nq_init = NoButton \<and> m_buttonMap_nq MessageBox_nq_init = [] \<and>
   messageBox None (Some 3) Warning ''Save?'' [] 0 Cancel MessageBox_mb_init =
     Some (NoButton, MessageBox_mb_init\<lparr>dialogs :=
       [\<lparr>box_parent = Some 3, box_icon = Warning, box_title = ''Save?'', box_text = [],
         box_buttons = [], box_default = None\<rparr>]\<rparr>) \<and>
   newQuestion None (Some 3) ''Save?'' [] 0 Cancel MessageBox_nq_init =
     Some (NoButton, MessageBox_nq_init\<lparr>dialogs_nq :=
       [Custom \<lparr>box_parent = Some 3, box_icon = Question, box_title = ''Save?'', box_text = [],
         box_buttons = [], box_default = None\<rparr>]\<rparr>)"
  using empty_set_shows_buttonless_dialog [where s = MessageBox_mb_init
      and t = MessageBox_nq_init and clicked = None and parent = "Some 3" and icon = Warning
      and title = "''Save?''" and body = "[]" and d = Cancel]
  by (simp add: MessageBox_mb_init_def MessageBox_nq_init_def)

section \<open>The second question of deleteEntries\<close>

lemma newQuestion_total:
  "\<exists>r t'. newQuestion clicked parent title body R d t = Some (r, t') \<and>
     length (dialogs_nq t') \<le> Suc (length (dialogs_nq t))"
proof (cases "m_newNextAnswer t = NoButton")
  case True
  from newQuestion_dialog [OF True, of R clicked parent title body d] show ?thesis by auto
next
  case False
  then show ?thesis by (simp add: newQuestion_override)
qed

lemma NoToAll_nonzero: "NoToAll \<noteq> NoButton"
  by (simp add: Button_defs)

text \<open>
  C9. In \<^verbatim>\<open>deleteEntries\<close> the second \<^verbatim>\<open>newQuestion\<close> follows
  \<^verbatim>\<open>setNewNextAnswer(NoToAll)\<close>: it returns \<^verbatim>\<open>NoToAll\<close> and executes no dialog. So the
  call always returns, never calls \<^verbatim>\<open>QApplication::exit\<close>, and executes at most one
  dialog.
\<close>

theorem deleteEntries_never_exits:
  "newQuestion click2 parent title body (Delete OR Cancel) NoButton (setNewNextAnswer NoToAll mb) =
     Some (NoToAll, mb\<lparr>m_newNextAnswer := NoButton\<rparr>) \<and>
   (\<exists>out. deleteEntries c self selected click1 click2 w = Some out \<and>
      (case out of
         AssertionFailed \<Rightarrow> selected = [] \<and> qt_debug c
       | Returned w' \<Rightarrow>
           exit_code w' = exit_code w \<and>
           length (dialogs_nq (messageBoxes w')) \<le> Suc (length (dialogs_nq (messageBoxes w)))))"
proof
  show "newQuestion click2 parent title body (Delete OR Cancel) NoButton (setNewNextAnswer NoToAll mb) =
     Some (NoToAll, mb\<lparr>m_newNextAnswer := NoButton\<rparr>)"
    using NoToAll_nonzero by (simp add: newQuestion_override setNewNextAnswer_def)
next
  show "\<exists>out. deleteEntries c self selected click1 click2 w = Some out \<and>
      (case out of
         AssertionFailed \<Rightarrow> selected = [] \<and> qt_debug c
       | Returned w' \<Rightarrow>
           exit_code w' = exit_code w \<and>
           length (dialogs_nq (messageBoxes w')) \<le> Suc (length (dialogs_nq (messageBoxes w))))"
  proof (cases "selected = []")
    case True
    then show ?thesis by (simp add: deleteEntries_def)
  next
    case False
    show ?thesis
    proof (cases "in_recycleBin c (m_db w) (hd selected) \<or> \<not> recycleBinEnabled c (m_db w)")
      case True
      let ?prompt = \<open>if length selected = 1
                      then arg c (tr c ''Do you really want to delete the entry "%1" for good?'')
                             (toHtmlEscaped c (entry_title c (hd selected)))
                      else tr_n c ''Do you really want to delete %n entry(s) for good?''
                             (length selected)\<close>
      from newQuestion_total [of click1 "Some self" "tr c ''Delete entry(s)?''" ?prompt
          "Delete OR Cancel" NoButton "messageBoxes w"]
      obtain answer mb1 where
        q1: "newQuestion click1 (Some self) (tr c ''Delete entry(s)?'') ?prompt
               (Delete OR Cancel) NoButton (messageBoxes w) = Some (answer, mb1)" and
        len: "length (dialogs_nq mb1) \<le> Suc (length (dialogs_nq (messageBoxes w)))"
        by blast
      have q2: "\<And>p t b. newQuestion click2 p t b (Delete OR Cancel) NoButton
                  (setNewNextAnswer NoToAll mb1) = Some (NoToAll, mb1\<lparr>m_newNextAnswer := NoButton\<rparr>)"
        using NoToAll_nonzero by (simp add: newQuestion_override setNewNextAnswer_def)
      show ?thesis
        using False True q1 len
        by (simp add: deleteEntries_def Let_def q2)
    next
      case recycle: False
      then show ?thesis
        using False
        by (simp add: deleteEntries_def Let_def split: prod.splits)
    qed
  qed
qed

lemma newQuestion_Delete_Cancel:
  "newQuestion click p title body (Delete OR Cancel) NoButton MessageBox_nq_init =
     Some (QMap_index [(Some 0, Cancel), (Some 1, Delete)] click,
       MessageBox_nq_init\<lparr>dialogs_nq :=
         [Custom \<lparr>box_parent = p, box_icon = Question, box_title = title, box_text = body,
                  box_buttons = [(''Cancel'', RejectRole), (''Delete'', DestructiveRole)],
                  box_default = None\<rparr>]\<rparr>)"
proof -
  have a: "addButton_nq_case Delete = Some (''Delete'', DestructiveRole)"
    "addButton_nq_case Cancel = Some (''Cancel'', RejectRole)"
    by (simp_all add: addButton_nq_case_def Button_defs)
  have b: "\<And>xs p q. (map Some xs = [Some p, Some q]) = (xs = [p, q])"
    by auto
  have i: "m_newNextAnswer MessageBox_nq_init = NoButton"
    by (simp add: MessageBox_nq_init_def)
  have c: "Cancel \<noteq> Delete" by (simp add: Button_defs)
  from newQuestion_dialog [OF i, of "Delete OR Cancel" click p title body NoButton]
  show ?thesis
    using a c by (simp add: b requested_Delete_Cancel MessageBox_nq_init_def)
qed

theorem deleteEntries_never_exits_witness:
  "\<exists>w'. deleteEntries
       \<lparr>qt_debug = False, entry_title = (\<lambda>e :: nat. ''entry''),
        in_recycleBin = (\<lambda>(db :: nat list) e. False), recycleBinEnabled = (\<lambda>db. False),
        delete_entry = removeAll, recycleEntry = (\<lambda>e db. db),
        tr = (\<lambda>s. s), tr_n = (\<lambda>s n. s), arg = (\<lambda>s a. s @ a), toHtmlEscaped = (\<lambda>s. s)\<rparr>
       0 [2] (Some 1) (Some 0)
       \<lparr>m_db = [1, 2, 3], messageBoxes = MessageBox_nq_init, searchRefreshes = 0,
        exit_code = None\<rparr> = Some (Returned w') \<and>
     m_db w' = [1, 3] \<and> searchRefreshes w' = 1 \<and> exit_code w' = None \<and>
     length (dialogs_nq (messageBoxes w')) = 1 \<and>
     m_newNextAnswer (messageBoxes w') = NoButton"
proof -
  have q1: "\<And>title body. newQuestion (Some (Suc 0)) (Some 0) title body (Delete OR Cancel) NoButton
      MessageBox_nq_init =
        Some (Delete, MessageBox_nq_init\<lparr>dialogs_nq :=
         [Custom \<lparr>box_parent = Some 0, box_icon = Question, box_title = title, box_text = body,
                  box_buttons = [(''Cancel'', RejectRole), (''Delete'', DestructiveRole)],
                  box_default = None\<rparr>]\<rparr>)"
    by (simp add: newQuestion_Delete_Cancel QMap_index_def)
  have q2: "\<And>parent title body mb.
      newQuestion (Some 0) parent title body (Delete OR Cancel) NoButton (setNewNextAnswer NoToAll mb) =
        Some (NoToAll, mb\<lparr>m_newNextAnswer := NoButton\<rparr>)"
    using deleteEntries_never_exits [where ?click2.0 = "Some 0"] by blast
  show ?thesis
    by (simp add: deleteEntries_def q1 q2 Let_def)
qed

section \<open>The values of the two enumerations\<close>

lemmas StandardButton_defs =
  QMessageBox_Ok_def QMessageBox_Save_def QMessageBox_SaveAll_def QMessageBox_Open_def
  QMessageBox_Yes_def QMessageBox_YesToAll_def QMessageBox_No_def QMessageBox_NoToAll_def
  QMessageBox_Abort_def QMessageBox_Retry_def QMessageBox_Ignore_def QMessageBox_Close_def
  QMessageBox_Cancel_def QMessageBox_Discard_def QMessageBox_Help_def QMessageBox_Apply_def
  QMessageBox_Reset_def QMessageBox_RestoreDefaults_def StandardButton_values_def

text \<open>
  C7, as stated: no \<^verbatim>\<open>MessageBox::Button\<close> has the value of a
  \<^verbatim>\<open>QMessageBox::StandardButton\<close>. But \<^verbatim>\<open>MessageBox::No\<close> is \<^verbatim>\<open>1 << 14\<close>, the value of
  \<^verbatim>\<open>QMessageBox::Yes\<close>.
\<close>

theorem Button_ranges_overlap:
  "No \<in> set Button_range \<and> QMessageBox_Yes \<in> set StandardButton_values \<and>
   uint No = QMessageBox_Yes"
  by (simp add: Button_range_def StandardButton_defs Button_defs)

text \<open>
  C7, amended. The buttons from \<^verbatim>\<open>Ok\<close> to \<^verbatim>\<open>Delete\<close> have distinct values other than
  \<^verbatim>\<open>NoButton\<close>, and so have the standard buttons of Qt; but a button has the value of
  a standard button exactly when it is \<^verbatim>\<open>Help\<close> or a later one, and then the standard
  button is one of another name.
\<close>

theorem Button_values_and_StandardButton_values:
  "distinct Button_range \<and> NoButton \<notin> set Button_range \<and> distinct StandardButton_values \<and>
   (\<forall>b \<in> set Button_range. (uint b \<in> set StandardButton_values) = (Help \<le> b)) \<and>
   uint Help = QMessageBox_Ok \<and> uint SaveAll = QMessageBox_Save \<and>
   uint Yes = QMessageBox_SaveAll \<and> uint YesToAll = QMessageBox_Open \<and>
   uint No = QMessageBox_Yes \<and> uint NoToAll = QMessageBox_YesToAll \<and>
   uint Abort = QMessageBox_No \<and> uint Retry = QMessageBox_NoToAll \<and>
   uint Ignore = QMessageBox_Abort \<and> uint Overwrite = QMessageBox_Retry \<and>
   uint Delete = QMessageBox_Ignore"
  by (simp add: Button_range_def StandardButton_defs Button_defs)

theorem Button_values_and_StandardButton_values_witness:
  "Abort \<in> set Button_range \<and> uint Abort \<in> set StandardButton_values \<and> Help \<le> Abort \<and>
   Cancel \<in> set Button_range \<and> uint Cancel \<notin> set StandardButton_values \<and> \<not> Help \<le> Cancel"
proof -
  have all: "\<forall>b \<in> set Button_range. (uint b \<in> set StandardButton_values) = (Help \<le> b)"
    using Button_values_and_StandardButton_values by blast
  have mem: "Abort \<in> set Button_range" "Cancel \<in> set Button_range"
    by (simp_all add: Button_range_def)
  have ord: "Help \<le> Abort" "\<not> Help \<le> Cancel"
    by (simp_all add: Button_defs)
  from all mem ord show ?thesis by blast
qed

end
